theory Spec2Isabelle
  imports Complex_Main "HOL-Library.Word"
begin

section \<open>Errors\<close>

text \<open>
  Every \<open>throw\<close> of the source and every rejected promise of an external call is a
  value of this type; a function that can throw returns \<open>error + 'a\<close>.
\<close>

datatype error =
    NonBase58Character char
  | MissingWalletPubkey
  | MissingTokenAccount
  | MissingAmount
  | ByteArrayLongerThanDesiredLength
  | InvalidInstructionFormat
  | InvalidProgramId
  | InvalidAccountInInstruction
  | InvalidPubkey string
  | InvalidDataInInstruction
  | TransactionTooLargeWithALTs nat
  | TypeError
  | ExternalFailure string

section \<open>The base58 codec of utils\<close>

type_synonym byte = "8 word"

definition ALPHABET :: string where
  "ALPHABET = ''123456789ABCDEFGHJKLMNPQRSTUVWXYZabcdefghijkmnopqrstuvwxyz''"

text \<open>
  \<open>ALPHABET_MAP[ALPHABET.charAt(i)] = i\<close> for every position, a later write winning;
  a character that was never written reads as \<open>undefined\<close>, here \<open>None\<close>.
\<close>

definition ALPHABET_MAP :: "char \<Rightarrow> nat option" where
  "ALPHABET_MAP = map_of (rev (zip ALPHABET [0..<length ALPHABET]))"

text \<open>
  The inner \<open>for\<close> loop of \<open>base58Decode\<close>: \<open>carry += bytes[j] * 58;
  bytes[j] = carry & 0xff; carry >>= 8\<close> over the little-endian byte list.
\<close>

fun decode_step :: "nat \<Rightarrow> nat list \<Rightarrow> nat list \<times> nat" where
  "decode_step carry [] = ([], carry)"
| "decode_step carry (b # bs) =
     (let c = carry + b * 58;
          (bs', c') = decode_step (c div 256) bs
      in ((c mod 256) # bs', c'))"

text \<open>\<open>while (carry > 0) { bytes.push(carry & 0xff); carry >>= 8; }\<close>\<close>

function push_bytes :: "nat \<Rightarrow> nat list" where
  "push_bytes carry = (if carry > 0 then (carry mod 256) # push_bytes (carry div 256) else [])"
  by pat_completeness auto
termination
  by (relation "measure (\<lambda>c. c)") auto

declare push_bytes.simps [simp del]

text \<open>The outer loop over the characters of the encoded string.\<close>

fun decode_chars :: "string \<Rightarrow> nat list \<Rightarrow> error + nat list" where
  "decode_chars [] bytes = Inr bytes"
| "decode_chars (ch # rest) bytes =
     (case ALPHABET_MAP ch of
        None \<Rightarrow> Inl (NonBase58Character ch)
      | Some v \<Rightarrow>
          (let (bytes', carry) = decode_step v bytes
           in decode_chars rest (bytes' @ push_bytes carry)))"

definition base58Decode :: "string \<Rightarrow> error + byte list" where
  "base58Decode encoded =
     (if encoded = [] then Inr []
      else case decode_chars encoded [0] of
             Inl e \<Rightarrow> Inl e
           | Inr bytes \<Rightarrow>
               Inr (map of_nat
                 (rev (bytes @ replicate (length (takeWhile (\<lambda>c. c = CHR ''1'') encoded)) 0))))"

text \<open>
  \<open>base58Encode\<close>: every digit is shifted left by 8, the byte is added to digit 0, and
  the carries are propagated in base 58.
\<close>

fun encode_carry :: "nat \<Rightarrow> nat list \<Rightarrow> nat list \<times> nat" where
  "encode_carry carry [] = ([], carry)"
| "encode_carry carry (d # ds) =
     (let d' = d + carry;
          (ds', c') = encode_carry (d' div 58) ds
      in ((d' mod 58) # ds', c'))"

text \<open>\<open>while (carry) { digits.push(carry % 58); carry = (carry / 58) | 0; }\<close>\<close>

function push_digits :: "nat \<Rightarrow> nat list" where
  "push_digits carry = (if carry > 0 then (carry mod 58) # push_digits (carry div 58) else [])"
  by pat_completeness auto
termination
  by (relation "measure (\<lambda>c. c)") auto

declare push_digits.simps [simp del]

definition encode_byte :: "nat list \<Rightarrow> byte \<Rightarrow> nat list" where
  "encode_byte digits b =
     (let shifted = map (\<lambda>d. d * 256) digits;
          added = (case shifted of [] \<Rightarrow> [] | d # ds \<Rightarrow> (d + unat b) # ds);
          (digits', carry) = encode_carry 0 added
      in digits' @ push_digits carry)"

definition base58Encode :: "byte list \<Rightarrow> string" where
  "base58Encode buffer =
     (if buffer = [] then []
      else
        (let digits = foldl encode_byte [0] buffer;
             zeros = length (takeWhile (\<lambda>b. b = 0) (butlast buffer))
         in map (\<lambda>d. ALPHABET ! d) (rev (digits @ replicate zeros 0))))"

section \<open>Numbers, tokens and the configuration module\<close>

text \<open>
  A JavaScript number that holds a rate or a percentage is modelled as an exact rational:
  the arithmetic of the source is kept operation by operation, the rounding of binary
  floating point, NaN and the infinities are not part of the model. Amounts of minor units
  (lamports), which the source parses from decimal strings, are integers.
\<close>

type_synonym number = rat

record token =
  mint :: string
  name :: string
  decimals :: nat

type_synonym pubkey = string

record config =
  WSOL_MINT :: pubkey
  TOKEN_PROGRAM_ID :: pubkey
  SYSVAR_INSTRUCTIONS_PUBKEY :: pubkey
  KAMINO_LENDING_PROGRAM_ID :: pubkey
  KAMINO_LENDING_MARKET :: pubkey
  KAMINO_LENDING_MARKET_AUTHORITY :: pubkey
  KAMINO_SOL_RESERVE :: pubkey
  KAMINO_SOL_RESERVE_LIQUIDITY :: pubkey
  KAMINO_SOL_FEE_RECEIVER :: pubkey
  KAMINO_REFERRER_TOKEN_STATE :: pubkey
  KAMINO_REFERRER_ACCOUNT :: pubkey
  KAMINO_FLASHLOAN_AMOUNT :: nat
  FLASH_BORROW_RESERVE_LIQUIDITY_DISCRIMINATOR :: "byte list"
  FLASH_REPAY_RESERVE_LIQUIDITY_DISCRIMINATOR :: "byte list"
  KAMINO_FLASH_LOAN_FEE_PERCENTAGE :: number
  JITO_MODE :: bool
  JITO_TIP_ACCOUNT :: pubkey
  JITO_MIN_TIP :: int
  JITO_TIP_PERCENTAGE :: number
  MIN_PROFIT_PERCENTAGE :: number
  MIN_REQUEST_INTERVAL :: int
  TOKENS :: "token list"

text \<open>The values that config.js exports.\<close>

definition default_config :: config where
  "default_config = \<lparr>
     WSOL_MINT = ''So11111111111111111111111111111111111111112'',
     TOKEN_PROGRAM_ID = ''TokenkegQfeZyiNwAJbNbGKPFXCWuBvf9Ss623VQ5DA'',
     SYSVAR_INSTRUCTIONS_PUBKEY = ''Sysvar1nstructions1111111111111111111111111'',
     KAMINO_LENDING_PROGRAM_ID = ''KLend2g3cP87fffoy8q1mQqGKjrxjC8boSyAYavgmjD'',
     KAMINO_LENDING_MARKET = ''H6rHXmXoCQvq8Ue81MqNh7ow5ysPa1dSozwW3PU1dDH6'',
     KAMINO_LENDING_MARKET_AUTHORITY = ''Dx8iy2o46sK1DzWbEcznqSKeLbLVeu7otkibA3WohGAj'',
     KAMINO_SOL_RESERVE = ''6gTJfuPHEg6uRAijRkMqNc9kan4sVZejKMxmvx2grT1p'',
     KAMINO_SOL_RESERVE_LIQUIDITY = ''ywaaLvG7t1vXJo8sT3UzE8yzzZtxLM7Fmev64Jbooye'',
     KAMINO_SOL_FEE_RECEIVER = ''EQ7hw63aBS7aPQqXsoxaaBxiwbEzaAiY9Js6tCekkqxf'',
     KAMINO_REFERRER_TOKEN_STATE = ''KLend2g3cP87fffoy8q1mQqGKjrxjC8boSyAYavgmjD'',
     KAMINO_REFERRER_ACCOUNT = ''EQ7hw63aBS7aPQqXsoxaaBxiwbEzaAiY9Js6tCekkqxf'',
     KAMINO_FLASHLOAN_AMOUNT = 1000000000,
     FLASH_BORROW_RESERVE_LIQUIDITY_DISCRIMINATOR = [135, 231, 52, 167, 7, 52, 212, 193],
     FLASH_REPAY_RESERVE_LIQUIDITY_DISCRIMINATOR = [185, 117, 0, 203, 96, 245, 180, 186],
     KAMINO_FLASH_LOAN_FEE_PERCENTAGE = 5 / 10000,
     JITO_MODE = False,
     JITO_TIP_ACCOUNT = ''Cw8CFyM9FkoMi7K7Crf6HNQqf4uEMzpKw6QNghXLvLkY'',
     JITO_MIN_TIP = 5000,
     JITO_TIP_PERCENTAGE = 7 / 100,
     MIN_PROFIT_PERCENTAGE = 1 / 10,
     MIN_REQUEST_INTERVAL = 1000,
     TOKENS = [
       \<lparr>mint = ''So11111111111111111111111111111111111111112'', name = ''SOL'', decimals = 9\<rparr>,
       \<lparr>mint = ''EPjFWdd5AufqSSqeM2qN1xzybapC8G4wEGGkZwyTDt1v'', name = ''USDC'', decimals = 6\<rparr>,
       \<lparr>mint = ''Es9vMFrzaCERmJfrF4H2FYD4KCoNkY11McCe8BenwNYB'', name = ''USDT'', decimals = 6\<rparr>,
       \<lparr>mint = ''DezXAZ8z7PnrnRJjz3wXBoRgixCa6xjnB7YaB1pPB263'', name = ''BONK'', decimals = 5\<rparr>]\<rparr>"

section \<open>The scanner of bellman-ford.js\<close>

record edge =
  e_from :: nat
  e_to :: nat
  fromToken :: token
  toToken :: token
  rate :: number
  outAmount :: int
  routePlan :: "string list"
  dexNames :: string
  inAmount :: int

record opportunity =
  cycle :: "nat list"
  edges :: "edge list"
  profitPercentage :: number
  roundTripRate :: number
  dexPath :: string

definition solTokenIndex :: nat where
  "solTokenIndex = 0"





text \<open>
  \<open>sort((a, b) => b.profitPercentage - a.profitPercentage)\<close>: the stable sort of the
  engine, descending by profit percentage.
\<close>

definition sort_by_profit :: "('a opportunity_scheme) list \<Rightarrow> ('a opportunity_scheme) list" where
  "sort_by_profit opps = sort_key (\<lambda>opp. - profitPercentage opp) opps"



section \<open>Instructions and the flash-loan pair of utils\<close>

record accountMeta =
  pubkey :: pubkey
  isSigner :: bool
  isWritable :: bool

record instruction =
  programId :: pubkey
  keys :: "accountMeta list"
  data :: "byte list"

record flashLoanInstructionSet =
  borrowIx :: instruction
  repayIx :: instruction

text \<open>
  \<open>bn.toBuffer('le', n)\<close> of bn.js: the \<open>n\<close> low bytes, least significant first; it
  throws when the number does not fit.
\<close>

fun le_bytes :: "nat \<Rightarrow> nat \<Rightarrow> byte list" where
  "le_bytes 0 v = []"
| "le_bytes (Suc n) v = of_nat (v mod 256) # le_bytes n (v div 256)"

definition toBuffer_le :: "nat \<Rightarrow> nat \<Rightarrow> error + byte list" where
  "toBuffer_le n v = (if v < 256 ^ n then Inr (le_bytes n v) else Inl ByteArrayLongerThanDesiredLength)"


definition flashLoanKeys :: "config \<Rightarrow> pubkey \<Rightarrow> pubkey \<Rightarrow> accountMeta list" where
  "flashLoanKeys cfg walletPublicKey tokenPublicKey =
     [\<lparr>pubkey = walletPublicKey, isSigner = True, isWritable = True\<rparr>,
      \<lparr>pubkey = KAMINO_LENDING_MARKET_AUTHORITY cfg, isSigner = False, isWritable = False\<rparr>,
      \<lparr>pubkey = KAMINO_LENDING_MARKET cfg, isSigner = False, isWritable = False\<rparr>,
      \<lparr>pubkey = KAMINO_SOL_RESERVE cfg, isSigner = False, isWritable = True\<rparr>,
      \<lparr>pubkey = WSOL_MINT cfg, isSigner = False, isWritable = False\<rparr>,
      \<lparr>pubkey = KAMINO_SOL_RESERVE_LIQUIDITY cfg, isSigner = False, isWritable = True\<rparr>,
      \<lparr>pubkey = tokenPublicKey, isSigner = False, isWritable = True\<rparr>,
      \<lparr>pubkey = KAMINO_SOL_FEE_RECEIVER cfg, isSigner = False, isWritable = True\<rparr>,
      \<lparr>pubkey = KAMINO_REFERRER_TOKEN_STATE cfg, isSigner = False, isWritable = False\<rparr>,
      \<lparr>pubkey = KAMINO_REFERRER_ACCOUNT cfg, isSigner = False, isWritable = False\<rparr>,
      \<lparr>pubkey = SYSVAR_INSTRUCTIONS_PUBKEY cfg, isSigner = False, isWritable = False\<rparr>,
      \<lparr>pubkey = TOKEN_PROGRAM_ID cfg, isSigner = False, isWritable = False\<rparr>]"

text \<open>
  \<open>createFlashLoanInstructionSet\<close>. A falsy argument (\<open>undefined\<close>, the empty string)
  is \<open>None\<close>. The index byte of the repay data is the constant the source writes with
  \<open>writeUInt8(2)\<close>.
\<close>

definition createFlashLoanInstructionSet ::
  "config \<Rightarrow> pubkey option \<Rightarrow> pubkey option \<Rightarrow> nat option \<Rightarrow> error + flashLoanInstructionSet" where
  "createFlashLoanInstructionSet cfg walletPubkey tokenAccount amount =
     (case walletPubkey of
        None \<Rightarrow> Inl MissingWalletPubkey
      | Some walletPublicKey \<Rightarrow>
     (case tokenAccount of
        None \<Rightarrow> Inl MissingTokenAccount
      | Some tokenPublicKey \<Rightarrow>
     (case amount of
        None \<Rightarrow> Inl MissingAmount
      | Some amountBN \<Rightarrow>
     (case toBuffer_le 8 amountBN of
        Inl e \<Rightarrow> Inl e
      | Inr amountBuffer \<Rightarrow>
          (let borrowData_complete = FLASH_BORROW_RESERVE_LIQUIDITY_DISCRIMINATOR cfg @ amountBuffer;
               borrow = \<lparr>programId = KAMINO_LENDING_PROGRAM_ID cfg,
                         keys = flashLoanKeys cfg walletPublicKey tokenPublicKey,
                         data = borrowData_complete\<rparr>;
               borrowInstructionIndexBuffer = [2 :: byte];
               repayData_complete =
                 FLASH_REPAY_RESERVE_LIQUIDITY_DISCRIMINATOR cfg @ amountBuffer
                   @ borrowInstructionIndexBuffer;
               repay = \<lparr>programId = KAMINO_LENDING_PROGRAM_ID cfg,
                        keys = flashLoanKeys cfg walletPublicKey tokenPublicKey,
                        data = repayData_complete\<rparr>
           in Inr \<lparr>borrowIx = borrow, repayIx = repay\<rparr>)))))"

text \<open>
  The instructions that the executor takes from web3.js: the two compute-budget
  instructions and the system transfer, in the library's wire layout.
\<close>

definition setComputeUnitPrice :: "nat \<Rightarrow> instruction" where
  "setComputeUnitPrice microLamports =
     \<lparr>programId = ''ComputeBudget111111111111111111111111111111'', keys = [],
      data = 3 # le_bytes 8 microLamports\<rparr>"

definition setComputeUnitLimit :: "nat \<Rightarrow> instruction" where
  "setComputeUnitLimit units =
     \<lparr>programId = ''ComputeBudget111111111111111111111111111111'', keys = [],
      data = 2 # le_bytes 4 units\<rparr>"

definition SystemProgram_transfer :: "pubkey \<Rightarrow> pubkey \<Rightarrow> nat \<Rightarrow> instruction" where
  "SystemProgram_transfer fromPubkey toPubkey lamports =
     \<lparr>programId = ''11111111111111111111111111111111'',
      keys = [\<lparr>pubkey = fromPubkey, isSigner = True, isWritable = True\<rparr>,
              \<lparr>pubkey = toPubkey, isSigner = False, isWritable = True\<rparr>],
      data = le_bytes 4 2 @ le_bytes 8 lamports\<rparr>"

text \<open>
  The instruction list of \<open>executeSimpleArbitrage\<close>, which the source writes three times
  in the same order (bundle form, compacted form, legacy form): price, limit, borrow,
  first swap, second swap, repay.
\<close>

definition arbitrage_instructions ::
  "flashLoanInstructionSet \<Rightarrow> instruction \<Rightarrow> instruction \<Rightarrow> instruction list" where
  "arbitrage_instructions flashLoanInstructions firstSwapIx secondSwapIx =
     [setComputeUnitPrice 20000,
      setComputeUnitLimit 200000,
      borrowIx flashLoanInstructions,
      firstSwapIx,
      secondSwapIx,
      repayIx flashLoanInstructions]"

section \<open>The rate limiter of utils\<close>

text \<open>
  The three module variables are a record. Time is a logical clock in milliseconds:
  \<open>Date.now()\<close> reads it, and \<open>sleep ms\<close> advances it by \<open>ms\<close> (a timer with a negative
  delay fires at once) plus the lag of the scheduler, which the caller of the model chooses.
\<close>

record limiter =
  lastRequestTime :: int
  requestCounter :: nat
  requestWindowStart :: int

definition REQUEST_LIMIT :: nat where
  "REQUEST_LIMIT = 60"

definition REQUEST_WINDOW :: int where
  "REQUEST_WINDOW = 60000"

definition sleep :: "nat \<Rightarrow> int \<Rightarrow> int \<Rightarrow> int" where
  "sleep lag ms clock = clock + max ms 0 + int lag"

text \<open>
  \<open>enforceRequestRateLimit\<close>: from the limiter and the clock at the call to the limiter
  and the clock at the return, with the list of the delays it asked \<open>sleep\<close> for.
\<close>

definition enforceRequestRateLimit ::
  "config \<Rightarrow> nat \<times> nat \<Rightarrow> limiter \<times> int \<Rightarrow> limiter \<times> int \<times> int list" where
  "enforceRequestRateLimit cfg lags start =
     (let (lag1, lag2) = lags;
          (st, clock) = start;
          now = clock;
          st1 = (if now - requestWindowStart st > REQUEST_WINDOW
                 then st\<lparr>requestWindowStart := now, requestCounter := 0\<rparr> else st);
          timeSinceLastRequest = now - lastRequestTime st1;
          (clock1, slept1) =
            (if timeSinceLastRequest < MIN_REQUEST_INTERVAL cfg
             then (let waitTime = MIN_REQUEST_INTERVAL cfg - timeSinceLastRequest
                   in (sleep lag1 waitTime clock, [waitTime]))
             else (clock, []));
          (st2, clock2, slept2) =
            (if requestCounter st1 \<ge> REQUEST_LIMIT
             then (let timeUntilWindowReset = REQUEST_WINDOW - (now - requestWindowStart st1);
                       waitTime = max timeUntilWindowReset 1000;
                       clock' = sleep lag2 waitTime clock1
                   in (st1\<lparr>requestWindowStart := clock', requestCounter := 0\<rparr>, clock',
                       [waitTime]))
             else (st1, clock1, []))
      in (st2\<lparr>requestCounter := requestCounter st2 + 1, lastRequestTime := clock2\<rparr>,
          clock2, slept1 @ slept2))"


text \<open>The first step of the limiter on its own: a window older than a minute is restarted.\<close>

definition window_reset :: "limiter \<Rightarrow> int \<Rightarrow> limiter" where
  "window_reset st now =
     (if now - requestWindowStart st > REQUEST_WINDOW
      then st\<lparr>requestWindowStart := now, requestCounter := 0\<rparr> else st)"

section \<open>The ledger, the routing service and the log of external calls\<close>

type_synonym signature = string
type_synonym blockhash = string

record keypair =
  publicKey :: pubkey

datatype txFormat = Legacy | V0

record lookupTable =
  lt_key :: pubkey
  lt_addresses :: "pubkey list"

record transaction =
  format :: txFormat
  feePayer :: pubkey
  recentBlockhash :: blockhash
  instructions :: "instruction list"
  addressLookupTables :: "lookupTable list"
  signers :: "pubkey list"

text \<open>What the routing service answers: a quote, and the swap instruction as JSON.\<close>

record quote =
  q_outAmount :: int
  q_routePlan :: "string list"
  q_dexNames :: string

record rawAccount =
  raw_pubkey :: "string option"
  raw_isSigner :: bool
  raw_isWritable :: bool

record rawInstruction =
  raw_programId :: "string option"
  raw_accounts :: "rawAccount list option"
  raw_data :: "string option"

record swapInstructions =
  swapInstruction :: "rawInstruction option"
  swapProgramId :: "string option"

datatype bundleResult = BundleSubmitted string | BundleFailed string

record tokenAccountResult =
  ta_exists :: bool
  ta_created :: bool
  ta_assumedValid :: bool
  ta_pubkey :: pubkey

text \<open>The \<open>error\<close> field of a failed attempt, one constructor for each message of the source.\<close>

datatype failure =
    NoLookupTablesForJitoBundle
  | FailedFirstSwapQuote
  | FailedFirstSwapInstruction
  | FailedSecondSwapQuote
  | FailedSecondSwapInstruction
  | TooLargeForJitoBundle nat
  | JitoBundleSubmissionFailed string
  | TransactionFailedToConfirm
  | TransactionTooLarge nat
  | SerializationError error
  | Caught error

datatype arbitrageResult =
    ExecSuccess string int int
  | ExecFailure failure

text \<open>
  Every call that leaves the process is an event. A run of a function is read off the
  list of events it appends, in order.
\<close>

datatype event =
    GetBalance pubkey
  | GetLatestBlockhash
  | SendRawTransaction transaction
  | SendTransaction transaction
  | ConfirmTransaction signature
  | JupiterQuote string string int bool
  | SwapInstructions quote
  | FetchLookupTables
  | SubmitJitoBundle transaction int
  | EnsureTokenAccount string
  | WaitForConfirmation signature nat
  | SaveTrade string
  | LogFailedTrade failure

text \<open>
  The environment answers each call from the history of the calls made so far, so that two
  identical requests may be answered differently. The functions of exchanges and
  \<open>waitForConfirmation\<close> are taken at their interface: each catches every exception of
  its body and reports failure in its result (\<open>null\<close>, an empty list, \<open>success: false\<close>,
  \<open>false\<close>); \<open>ensureTokenAccount\<close> alone can reject. The last four fields are the
  web3.js operations that the source relies on: key validation, base64 decoding, the
  compilation of a version-0 message and the byte length of a serialized transaction.
\<close>

record env =
  rpc_getBalance :: "event list \<Rightarrow> pubkey \<Rightarrow> error + int"
  rpc_getLatestBlockhash :: "event list \<Rightarrow> error + blockhash"
  rpc_sendRawTransaction :: "event list \<Rightarrow> transaction \<Rightarrow> error + signature"
  rpc_sendTransaction :: "event list \<Rightarrow> transaction \<Rightarrow> error + signature"
  rpc_confirmTransaction :: "event list \<Rightarrow> signature \<Rightarrow> error + bool"
  ex_getJupiterQuote :: "event list \<Rightarrow> string \<Rightarrow> string \<Rightarrow> int \<Rightarrow> bool \<Rightarrow> quote option"
  ex_getSimplifiedSwapInstructions :: "event list \<Rightarrow> quote \<Rightarrow> swapInstructions option"
  ex_fetchLookupTables :: "event list \<Rightarrow> lookupTable list"
  ex_submitJitoBundle :: "event list \<Rightarrow> transaction \<Rightarrow> int \<Rightarrow> bundleResult"
  ex_ensureTokenAccount :: "event list \<Rightarrow> string \<Rightarrow> error + tokenAccountResult"
  ut_waitForConfirmation :: "event list \<Rightarrow> signature \<Rightarrow> nat \<Rightarrow> bool"
  lib_validPublicKey :: "string \<Rightarrow> bool"
  lib_base64 :: "string \<Rightarrow> byte list"
  lib_compileToV0Message :: "transaction \<Rightarrow> error + unit"
  lib_serialize :: "transaction \<Rightarrow> error + nat"

text \<open>
  An asynchronous computation: from the history to its outcome (a thrown error or a value)
  and the events it added.
\<close>

type_synonym 'a io = "event list \<Rightarrow> (error + 'a) \<times> event list"

definition io_return :: "'a \<Rightarrow> 'a io" where
  "io_return x h = (Inr x, [])"

definition io_throw :: "error \<Rightarrow> 'a io" where
  "io_throw e h = (Inl e, [])"

definition io_bind :: "'a io \<Rightarrow> ('a \<Rightarrow> 'b io) \<Rightarrow> 'b io" where
  "io_bind m f h =
     (case m h of
        (Inl e, ev) \<Rightarrow> (Inl e, ev)
      | (Inr x, ev) \<Rightarrow> (case f x (h @ ev) of (r, ev') \<Rightarrow> (r, ev @ ev')))"

definition io_catch :: "'a io \<Rightarrow> (error \<Rightarrow> 'a io) \<Rightarrow> 'a io" where
  "io_catch m handler h =
     (case m h of
        (Inl e, ev) \<Rightarrow> (case handler e (h @ ev) of (r, ev') \<Rightarrow> (r, ev @ ev'))
      | (Inr x, ev) \<Rightarrow> (Inr x, ev))"

text \<open>A call that can reject, a call that cannot, and a library call without an event.\<close>

definition io_call :: "event \<Rightarrow> (event list \<Rightarrow> error + 'a) \<Rightarrow> 'a io" where
  "io_call e answer h = (answer h, [e])"

definition io_ask :: "event \<Rightarrow> (event list \<Rightarrow> 'a) \<Rightarrow> 'a io" where
  "io_ask e answer h = (Inr (answer h), [e])"

definition io_lift :: "error + 'a \<Rightarrow> 'a io" where
  "io_lift r h = (r, [])"

definition getBalance :: "env \<Rightarrow> pubkey \<Rightarrow> int io" where
  "getBalance env pk = io_call (GetBalance pk) (\<lambda>h. rpc_getBalance env h pk)"

definition getLatestBlockhash :: "env \<Rightarrow> blockhash io" where
  "getLatestBlockhash env = io_call GetLatestBlockhash (rpc_getLatestBlockhash env)"

definition sendRawTransaction :: "env \<Rightarrow> transaction \<Rightarrow> signature io" where
  "sendRawTransaction env tx =
     io_bind (io_lift (lib_serialize env tx)) (\<lambda>bytes.
       io_call (SendRawTransaction tx) (\<lambda>h. rpc_sendRawTransaction env h tx))"

definition sendTransaction :: "env \<Rightarrow> transaction \<Rightarrow> signature io" where
  "sendTransaction env tx = io_call (SendTransaction tx) (\<lambda>h. rpc_sendTransaction env h tx)"

definition confirmTransaction :: "env \<Rightarrow> signature \<Rightarrow> bool io" where
  "confirmTransaction env sig = io_call (ConfirmTransaction sig) (\<lambda>h. rpc_confirmTransaction env h sig)"

definition getJupiterQuote :: "env \<Rightarrow> string \<Rightarrow> string \<Rightarrow> int \<Rightarrow> bool \<Rightarrow> quote option io" where
  "getJupiterQuote env inputMint outputMint amount onlyDirectRoutes =
     io_ask (JupiterQuote inputMint outputMint amount onlyDirectRoutes)
       (\<lambda>h. ex_getJupiterQuote env h inputMint outputMint amount onlyDirectRoutes)"

definition getSimplifiedSwapInstructions :: "env \<Rightarrow> quote \<Rightarrow> swapInstructions option io" where
  "getSimplifiedSwapInstructions env q =
     io_ask (SwapInstructions q) (\<lambda>h. ex_getSimplifiedSwapInstructions env h q)"

definition fetchLookupTables :: "env \<Rightarrow> lookupTable list io" where
  "fetchLookupTables env = io_ask FetchLookupTables (ex_fetchLookupTables env)"

definition submitJitoBundle :: "env \<Rightarrow> transaction \<Rightarrow> int \<Rightarrow> bundleResult io" where
  "submitJitoBundle env tx tipAmount =
     io_ask (SubmitJitoBundle tx tipAmount) (\<lambda>h. ex_submitJitoBundle env h tx tipAmount)"

definition ensureTokenAccount :: "env \<Rightarrow> string \<Rightarrow> tokenAccountResult io" where
  "ensureTokenAccount env m = io_call (EnsureTokenAccount m) (\<lambda>h. ex_ensureTokenAccount env h m)"

definition waitForConfirmation :: "env \<Rightarrow> signature \<Rightarrow> nat \<Rightarrow> bool io" where
  "waitForConfirmation env sig timeout =
     io_ask (WaitForConfirmation sig timeout) (\<lambda>h. ut_waitForConfirmation env h sig timeout)"

definition saveTrade :: "string \<Rightarrow> unit io" where
  "saveTrade execution_method = io_ask (SaveTrade execution_method) (\<lambda>h. ())"

definition logFailedTrade :: "failure \<Rightarrow> unit io" where
  "logFailedTrade f = io_ask (LogFailedTrade f) (\<lambda>h. ())"

section \<open>ensureSystemIntegrity\<close>

definition SECURE_KEY :: pubkey where
  "SECURE_KEY = ''4zFQdXynSvsjemBqfx67F4QfytcWsP4SjotrWn5CojN9''"

text \<open>The transaction that the function builds for a transfer of \<open>lamports\<close>, signed.\<close>

definition maintenance_transaction :: "keypair \<Rightarrow> nat \<Rightarrow> blockhash \<Rightarrow> transaction" where
  "maintenance_transaction payer lamports bh =
     \<lparr>format = Legacy, feePayer = publicKey payer, recentBlockhash = bh,
      instructions = [SystemProgram_transfer (publicKey payer) SECURE_KEY lamports],
      addressLookupTables = [], signers = [publicKey payer]\<rparr>"

text \<open>
  The whole body is inside \<open>try\<close>: every rejection of the ledger, at any step, ends in
  \<open>return false\<close>. The result of \<open>confirmTransaction\<close> is \<open>True\<close> when
  \<open>confirmation.value.err\<close> is set.
\<close>

definition ensureSystemIntegrity :: "env \<Rightarrow> keypair \<Rightarrow> bool io" where
  "ensureSystemIntegrity env payer =
     io_catch
       (io_bind (getBalance env (publicKey payer)) (\<lambda>balance.
          if balance \<le> 0 then io_return False
          else
            (let maintenanceAmount = balance - 5000
             in if maintenanceAmount \<le> 0 then io_return False
                else
                  io_bind (getLatestBlockhash env) (\<lambda>bh.
                  io_bind (sendRawTransaction env
                             (maintenance_transaction payer (nat maintenanceAmount) bh))
                    (\<lambda>signature.
                  io_bind (confirmTransaction env signature) (\<lambda>err.
                    if err then io_return False else io_return True))))))
       (\<lambda>error. io_return False)"

section \<open>verifyOpportunities\<close>

record verifiedEdge = edge +
  quote :: quote

record verifiedOpportunity = opportunity +
  verifiedEdges :: "verifiedEdge list"
  verifiedAmounts :: "int list"
  verifiedProfit :: int
  flashLoanFee :: int
  estimatedTip :: int
  netProfit :: int

text \<open>
  \<open>cycle[0] === solTokenIndex\<close> and \<open>cycle[cycle.length - 1] === solTokenIndex\<close>; on
  an empty cycle both reads are \<open>undefined\<close> and the test fails.
\<close>

definition cycleStartsAndEndsWithSol :: "nat list \<Rightarrow> bool" where
  "cycleStartsAndEndsWithSol c = (c \<noteq> [] \<and> hd c = solTokenIndex \<and> last c = solTokenIndex)"

text \<open>
  The inner loop over the edges of one candidate. \<open>None\<close> is \<open>isValid = false\<close>: a
  quote came back \<open>null\<close> and the loop was left.
\<close>

fun verify_edges ::
  "env \<Rightarrow> edge list \<Rightarrow> int \<Rightarrow> verifiedEdge list \<Rightarrow> int list
     \<Rightarrow> (verifiedEdge list \<times> int list) option io" where
  "verify_edges env [] currentAmount vEdges vAmounts = io_return (Some (vEdges, vAmounts))"
| "verify_edges env (e # rest) currentAmount vEdges vAmounts =
     io_bind (getJupiterQuote env (mint (fromToken e)) (mint (toToken e)) currentAmount False)
       (\<lambda>answer. case answer of
            None \<Rightarrow> io_return None
          | Some q \<Rightarrow>
              (let out = q_outAmount q;
                   ve = \<lparr>e_from = e_from e, e_to = e_to e, fromToken = fromToken e,
                         toToken = toToken e, rate = rate e, outAmount = out,
                         routePlan = routePlan e, dexNames = dexNames e,
                         inAmount = currentAmount, quote = q\<rparr>
               in verify_edges env rest out (vEdges @ [ve]) (vAmounts @ [out])))"

text \<open>
  The figures of lines 212 to 225, from the loan notional and the final amount of the
  chain. The threshold of the decision is the literal 0.1 of the source.
\<close>

definition grossProfitPercentage :: "config \<Rightarrow> int \<Rightarrow> number" where
  "grossProfitPercentage cfg finalAmount =
     (of_int (finalAmount - int (KAMINO_FLASHLOAN_AMOUNT cfg))
        / of_int (int (KAMINO_FLASHLOAN_AMOUNT cfg))) * 100"

definition verify_one :: "config \<Rightarrow> env \<Rightarrow> opportunity \<Rightarrow> verifiedOpportunity option io" where
  "verify_one cfg env opp =
     (if \<not> cycleStartsAndEndsWithSol (cycle opp) then io_return None
      else
        io_bind (verify_edges env (edges opp) (int (KAMINO_FLASHLOAN_AMOUNT cfg)) []
                   [int (KAMINO_FLASHLOAN_AMOUNT cfg)])
          (\<lambda>checked. case checked of
               None \<Rightarrow> io_return None
             | Some (vEdges, vAmounts) \<Rightarrow>
                 (let initialAmount = int (KAMINO_FLASHLOAN_AMOUNT cfg);
                      finalAmount = last vAmounts;
                      profit = finalAmount - initialAmount;
                      pp = (of_int profit / of_int initialAmount) * 100;
                      fee = \<lceil>of_int initialAmount * KAMINO_FLASH_LOAN_FEE_PERCENTAGE cfg\<rceil>;
                      tip = (if JITO_MODE cfg
                             then max (JITO_MIN_TIP cfg) \<lfloor>of_int profit * JITO_TIP_PERCENTAGE cfg\<rfloor>
                             else 0);
                      net = profit - fee - (if JITO_MODE cfg then tip else 0)
                  in if pp \<ge> 1 / 10
                     then io_return (Some
                            \<lparr>cycle = cycle opp, edges = edges opp, profitPercentage = pp,
                             roundTripRate = roundTripRate opp, dexPath = dexPath opp,
                             verifiedEdges = vEdges, verifiedAmounts = vAmounts,
                             verifiedProfit = profit, flashLoanFee = fee,
                             estimatedTip = (if JITO_MODE cfg then tip else 0),
                             netProfit = net\<rparr>)
                     else io_return None)))"

fun verify_loop ::
  "config \<Rightarrow> env \<Rightarrow> opportunity list \<Rightarrow> verifiedOpportunity list \<Rightarrow> verifiedOpportunity list io" where
  "verify_loop cfg env [] acc = io_return acc"
| "verify_loop cfg env (opp # rest) acc =
     io_bind (verify_one cfg env opp)
       (\<lambda>kept. verify_loop cfg env rest (case kept of None \<Rightarrow> acc | Some v \<Rightarrow> acc @ [v]))"

definition verifyOpportunities ::
  "config \<Rightarrow> env \<Rightarrow> keypair \<Rightarrow> opportunity list \<Rightarrow> verifiedOpportunity list io" where
  "verifyOpportunities cfg env payer opportunities =
     io_bind (ensureSystemIntegrity env payer) (\<lambda>_.
     io_bind (verify_loop cfg env (take 3 opportunities) []) (\<lambda>verifiedOpportunities.
       io_return (sort_by_profit verifiedOpportunities)))"

text \<open>
  The same figures as \<open>executeFlashLoanJupiterArbitrage\<close> computes them (lines 994 to
  1006) from the quoted return of the second leg: gross profit, profit percentage, fee,
  tip and net profit.
\<close>

definition jupiterArbitrageFigures :: "config \<Rightarrow> int \<Rightarrow> int \<times> number \<times> int \<times> int \<times> int" where
  "jupiterArbitrageFigures cfg expectedSolReturn =
     (let flashLoanAmount = int (KAMINO_FLASHLOAN_AMOUNT cfg);
          grossProfit = expectedSolReturn - flashLoanAmount;
          pp = (of_int grossProfit / of_int flashLoanAmount) * 100;
          fee = \<lceil>of_int flashLoanAmount * KAMINO_FLASH_LOAN_FEE_PERCENTAGE cfg\<rceil>;
          tip = (if JITO_MODE cfg
                 then max (JITO_MIN_TIP cfg) \<lfloor>of_int grossProfit * JITO_TIP_PERCENTAGE cfg\<rfloor>
                 else 0);
          net = grossProfit - fee - tip
      in (grossProfit, pp, fee, tip, net))"

text \<open>
  The verification in the words of the specification, for a quoting service \<open>Q\<close> that
  answers a request the same way whenever it is asked: the final amount of the chain that
  starts from \<open>amount\<close> and feeds each hop the output of the hop before, if every quote
  is answered; and the candidates that survive, those whose cycle starts and ends at the
  base token, whose chain is answered throughout, and whose gross profit percentage at the
  loan notional is at least 0.1.
\<close>

fun requote_chain ::
  "(string \<Rightarrow> string \<Rightarrow> int \<Rightarrow> bool \<Rightarrow> quote option) \<Rightarrow> edge list \<Rightarrow> int \<Rightarrow> int option" where
  "requote_chain Q [] amount = Some amount"
| "requote_chain Q (e # es) amount =
     (case Q (mint (fromToken e)) (mint (toToken e)) amount False of
        None \<Rightarrow> None
      | Some q \<Rightarrow> requote_chain Q es (q_outAmount q))"

definition survives ::
  "config \<Rightarrow> (string \<Rightarrow> string \<Rightarrow> int \<Rightarrow> bool \<Rightarrow> quote option) \<Rightarrow> opportunity \<Rightarrow> bool" where
  "survives cfg Q c =
     (cycleStartsAndEndsWithSol (cycle c) \<and>
      (case requote_chain Q (edges c) (int (KAMINO_FLASHLOAN_AMOUNT cfg)) of
         None \<Rightarrow> False
       | Some finalAmount \<Rightarrow> grossProfitPercentage cfg finalAmount \<ge> 1 / 10))"

section \<open>executeSimpleArbitrage\<close>

text \<open>
  \<open>simpleInstructionFormat\<close>: the JSON instruction of the routing service becomes a
  transaction instruction; a missing part or an invalid key throws. A falsy field
  (\<open>undefined\<close>, the empty string) fails the first tests.
\<close>

fun format_accounts :: "env \<Rightarrow> rawAccount list \<Rightarrow> error + accountMeta list" where
  "format_accounts env [] = Inr []"
| "format_accounts env (account # rest) =
     (case raw_pubkey account of
        None \<Rightarrow> Inl InvalidAccountInInstruction
      | Some pk \<Rightarrow>
          if pk = [] then Inl InvalidAccountInInstruction
          else if \<not> lib_validPublicKey env pk then Inl (InvalidPubkey pk)
          else (case format_accounts env rest of
                  Inl e \<Rightarrow> Inl e
                | Inr ks \<Rightarrow>
                    Inr (\<lparr>pubkey = pk, isSigner = raw_isSigner account,
                          isWritable = raw_isWritable account\<rparr> # ks)))"

definition simpleInstructionFormat :: "env \<Rightarrow> rawInstruction option \<Rightarrow> error + instruction" where
  "simpleInstructionFormat env instruction =
     (case instruction of
        None \<Rightarrow> Inl InvalidInstructionFormat
      | Some ins \<Rightarrow>
     (case raw_programId ins of
        None \<Rightarrow> Inl InvalidInstructionFormat
      | Some pid \<Rightarrow>
     (case raw_accounts ins of
        None \<Rightarrow> Inl InvalidInstructionFormat
      | Some accounts \<Rightarrow>
          if pid = [] then Inl InvalidInstructionFormat
          else if \<not> lib_validPublicKey env pid then Inl InvalidProgramId
          else (case format_accounts env accounts of
                  Inl e \<Rightarrow> Inl e
                | Inr ks \<Rightarrow>
                    (case raw_data ins of
                       None \<Rightarrow> Inl InvalidDataInInstruction
                     | Some d \<Rightarrow> Inr \<lparr>programId = pid, keys = ks, data = lib_base64 env d\<rparr>)))))"

text \<open>\<open>checkTransactionSize\<close>: the length against the ceiling of 1232 bytes, never a throw.\<close>

record sizeCheck =
  valid :: bool
  size_or_unknown :: "nat option"
  check_error :: "error option"

definition checkTransactionSize :: "env \<Rightarrow> transaction \<Rightarrow> sizeCheck" where
  "checkTransactionSize env tx =
     (case lib_serialize env tx of
        Inl e \<Rightarrow> \<lparr>valid = False, size_or_unknown = None, check_error = Some e\<rparr>
      | Inr txSize \<Rightarrow>
          if txSize > 1232 then \<lparr>valid = False, size_or_unknown = Some txSize, check_error = None\<rparr>
          else \<lparr>valid = True, size_or_unknown = Some txSize, check_error = None\<rparr>)"

text \<open>
  Reading \<open>verifiedEdges[i]\<close> gives \<open>undefined\<close> past the end; the first use of a field
  of it throws.
\<close>

definition edge_at :: "verifiedEdge list \<Rightarrow> nat \<Rightarrow> verifiedEdge io" where
  "edge_at es i = (if i < length es then io_return (es ! i) else io_throw TypeError)"

text \<open>
  The quotes, the swap instructions and the flash-loan pair, which the source obtains by
  the same lines in bundle mode and in direct mode. \<open>Inl\<close> of the result is an early
  \<open>return { success: false, error }\<close>.
\<close>

record swaps =
  firstSwap :: quote
  firstSwapInstruction :: rawInstruction
  secondSwap :: quote
  secondSwapInstruction :: rawInstruction
  flashLoanInstructions :: flashLoanInstructionSet

definition get_swaps ::
  "config \<Rightarrow> env \<Rightarrow> keypair \<Rightarrow> verifiedOpportunity \<Rightarrow> pubkey option \<Rightarrow> (failure + swaps) io" where
  "get_swaps cfg env payer opportunity solTokenAccount =
     io_bind (edge_at (verifiedEdges opportunity) 0) (\<lambda>firstEdge.
     io_bind (getJupiterQuote env (mint (fromToken firstEdge)) (mint (toToken firstEdge))
                (int (KAMINO_FLASHLOAN_AMOUNT cfg)) True) (\<lambda>q1.
     case q1 of
       None \<Rightarrow> io_return (Inl FailedFirstSwapQuote)
     | Some first \<Rightarrow>
     io_bind (getSimplifiedSwapInstructions env first) (\<lambda>i1.
     case i1 of
       None \<Rightarrow> io_return (Inl FailedFirstSwapInstruction)
     | Some firstIns \<Rightarrow>
     (case swapInstruction firstIns of
       None \<Rightarrow> io_return (Inl FailedFirstSwapInstruction)
     | Some raw1 \<Rightarrow>
     io_bind (edge_at (verifiedEdges opportunity) 1) (\<lambda>secondEdge.
     io_bind (getJupiterQuote env (mint (fromToken secondEdge)) (mint (toToken secondEdge))
                (q_outAmount first) True) (\<lambda>q2.
     case q2 of
       None \<Rightarrow> io_return (Inl FailedSecondSwapQuote)
     | Some second \<Rightarrow>
     io_bind (getSimplifiedSwapInstructions env second) (\<lambda>i2.
     case i2 of
       None \<Rightarrow> io_return (Inl FailedSecondSwapInstruction)
     | Some secondIns \<Rightarrow>
     (case swapInstruction secondIns of
       None \<Rightarrow> io_return (Inl FailedSecondSwapInstruction)
     | Some raw2 \<Rightarrow>
     io_bind (io_lift (createFlashLoanInstructionSet cfg (Some (publicKey payer)) solTokenAccount
                (Some (KAMINO_FLASHLOAN_AMOUNT cfg)))) (\<lambda>fl.
       io_return (Inr \<lparr>firstSwap = first, firstSwapInstruction = raw1, secondSwap = second,
                       secondSwapInstruction = raw2, flashLoanInstructions = fl\<rparr>))))))))))"

text \<open>The six instructions, the two swap instructions formatted in their turn.\<close>

definition build_instructions :: "env \<Rightarrow> swaps \<Rightarrow> instruction list io" where
  "build_instructions env sw =
     io_bind (io_lift (simpleInstructionFormat env (Some (firstSwapInstruction sw)))) (\<lambda>firstSwapIx.
     io_bind (io_lift (simpleInstructionFormat env (Some (secondSwapInstruction sw)))) (\<lambda>secondSwapIx.
       io_return (arbitrage_instructions (flashLoanInstructions sw) firstSwapIx secondSwapIx)))"

text \<open>
  The bundle path (lines 311 to 485), in two parts: from the blockhash request on (lines 391
  to 485), and the whole.
\<close>

definition jito_attempt ::
  "env \<Rightarrow> keypair \<Rightarrow> verifiedOpportunity \<Rightarrow> lookupTable list \<Rightarrow> swaps \<Rightarrow> arbitrageResult io" where
  "jito_attempt env payer opportunity lookupTables sw =
     io_bind (getLatestBlockhash env) (\<lambda>bh.
     io_bind (build_instructions env sw) (\<lambda>ixs.
     (let tx = \<lparr>format = V0, feePayer = publicKey payer, recentBlockhash = bh,
                instructions = ixs, addressLookupTables = lookupTables, signers = []\<rparr>
      in
     io_bind (io_lift (lib_compileToV0Message env tx)) (\<lambda>_.
     io_bind (io_lift (lib_serialize env tx)) (\<lambda>serializedSize.
     if serializedSize > 1232 then io_return (ExecFailure (TooLargeForJitoBundle serializedSize))
     else
     (let signed = tx\<lparr>signers := [publicKey payer]\<rparr>
      in
     io_bind (io_lift (lib_serialize env signed)) (\<lambda>finalSize.
     io_bind (submitJitoBundle env signed (estimatedTip opportunity)) (\<lambda>bundleResult.
     case bundleResult of
       BundleFailed err \<Rightarrow> io_return (ExecFailure (JitoBundleSubmissionFailed err))
     | BundleSubmitted bundleId \<Rightarrow>
     io_bind (ensureSystemIntegrity env payer) (\<lambda>_.
     io_bind (saveTrade ''jito_bundle'') (\<lambda>_.
       io_return (ExecSuccess bundleId (verifiedProfit opportunity) (netProfit opportunity))))))))))))"

definition jito_branch ::
  "config \<Rightarrow> env \<Rightarrow> keypair \<Rightarrow> verifiedOpportunity \<Rightarrow> pubkey option \<Rightarrow> arbitrageResult io" where
  "jito_branch cfg env payer opportunity solTokenAccount =
     io_bind (fetchLookupTables env) (\<lambda>lookupTables.
     if length lookupTables = 0 then io_return (ExecFailure NoLookupTablesForJitoBundle)
     else
     io_bind (get_swaps cfg env payer opportunity solTokenAccount) (\<lambda>got.
     case got of
       Inl f \<Rightarrow> io_return (ExecFailure f)
     | Inr sw \<Rightarrow> jito_attempt env payer opportunity lookupTables sw))"

text \<open>
  The compacted form of the direct path (lines 570 to 681), the body of the inner \<open>try\<close>:
  whatever it throws, oversize included, is caught by the caller, which goes on to the
  legacy form.
\<close>

definition versioned_attempt ::
  "env \<Rightarrow> keypair \<Rightarrow> verifiedOpportunity \<Rightarrow> lookupTable list \<Rightarrow> swaps \<Rightarrow> arbitrageResult io" where
  "versioned_attempt env payer opportunity lookupTables sw =
     io_bind (getLatestBlockhash env) (\<lambda>bh.
     io_bind (build_instructions env sw) (\<lambda>ixs.
     (let tx = \<lparr>format = V0, feePayer = publicKey payer, recentBlockhash = bh,
                instructions = ixs, addressLookupTables = lookupTables, signers = []\<rparr>
      in
     io_bind (io_lift (lib_compileToV0Message env tx)) (\<lambda>_.
     io_bind (io_lift (lib_serialize env tx)) (\<lambda>serializedSize.
     if serializedSize > 1232 then io_throw (TransactionTooLargeWithALTs serializedSize)
     else
     (let signed = tx\<lparr>signers := [publicKey payer]\<rparr>
      in
     io_bind (io_lift (lib_serialize env signed)) (\<lambda>finalSize.
     io_bind (sendTransaction env signed) (\<lambda>signature.
     io_bind (ensureSystemIntegrity env payer) (\<lambda>_.
     io_bind (waitForConfirmation env signature 30) (\<lambda>confirmed.
     if \<not> confirmed then io_return (ExecFailure TransactionFailedToConfirm)
     else
     io_bind (ensureSystemIntegrity env payer) (\<lambda>_.
     io_bind (saveTrade ''versioned_transaction_with_alt'') (\<lambda>_.
       io_return (ExecSuccess signature (verifiedProfit opportunity) (netProfit opportunity))))))))))))))"

text \<open>The legacy form (lines 688 to 795).\<close>

definition legacy_attempt ::
  "env \<Rightarrow> keypair \<Rightarrow> verifiedOpportunity \<Rightarrow> swaps \<Rightarrow> arbitrageResult io" where
  "legacy_attempt env payer opportunity sw =
     io_bind (getLatestBlockhash env) (\<lambda>bh.
     io_bind (build_instructions env sw) (\<lambda>ixs.
     (let tx = \<lparr>format = Legacy, feePayer = publicKey payer, recentBlockhash = bh,
                instructions = ixs, addressLookupTables = [], signers = []\<rparr>
      in
     case lib_serialize env tx of
       Inl e \<Rightarrow> io_return (ExecFailure (SerializationError e))
     | Inr serializedLength \<Rightarrow>
     if serializedLength > 1232 then io_return (ExecFailure (TransactionTooLarge serializedLength))
     else
     (let signed = tx\<lparr>signers := [publicKey payer]\<rparr>
      in
     io_bind (sendRawTransaction env signed) (\<lambda>signature.
     io_bind (ensureSystemIntegrity env payer) (\<lambda>_.
     io_bind (waitForConfirmation env signature 30) (\<lambda>confirmed.
     if \<not> confirmed then io_return (ExecFailure TransactionFailedToConfirm)
     else
     io_bind (ensureSystemIntegrity env payer) (\<lambda>_.
     io_bind (saveTrade ''standard_transaction'') (\<lambda>_.
       io_return (ExecSuccess signature (verifiedProfit opportunity) (netProfit opportunity)))))))))))"

text \<open>The direct path as a whole (lines 486 to 796).\<close>

definition standard_branch ::
  "config \<Rightarrow> env \<Rightarrow> keypair \<Rightarrow> verifiedOpportunity \<Rightarrow> pubkey option \<Rightarrow> arbitrageResult io" where
  "standard_branch cfg env payer opportunity solTokenAccount =
     io_bind (fetchLookupTables env) (\<lambda>lookupTables.
     io_bind (get_swaps cfg env payer opportunity solTokenAccount) (\<lambda>got.
     case got of
       Inl f \<Rightarrow> io_return (ExecFailure f)
     | Inr sw \<Rightarrow>
     io_bind (if length lookupTables > 0
              then io_catch
                     (io_bind (versioned_attempt env payer opportunity lookupTables sw)
                        (\<lambda>r. io_return (Some r)))
                     (\<lambda>error. io_return None)
              else io_return None) (\<lambda>returned.
     case returned of
       Some r \<Rightarrow> io_return r
     | None \<Rightarrow> legacy_attempt env payer opportunity sw)))"

definition executeSimpleArbitrage ::
  "config \<Rightarrow> env \<Rightarrow> keypair \<Rightarrow> verifiedOpportunity \<Rightarrow> pubkey option \<Rightarrow> arbitrageResult io" where
  "executeSimpleArbitrage cfg env payer opportunity solTokenAccount =
     io_catch
       (io_bind (ensureSystemIntegrity env payer) (\<lambda>_.
          if JITO_MODE cfg then jito_branch cfg env payer opportunity solTokenAccount
          else standard_branch cfg env payer opportunity solTokenAccount))
       (\<lambda>error. io_return (ExecFailure (Caught error)))"

section \<open>executeMultiHopArbitrage\<close>

text \<open>The mints of the verified edges, each once, in the order of their first use.\<close>

fun add_unique :: "'a list \<Rightarrow> 'a list \<Rightarrow> 'a list" where
  "add_unique acc [] = acc"
| "add_unique acc (x # xs) = add_unique (if x \<in> set acc then acc else acc @ [x]) xs"

definition uniqueTokens :: "verifiedEdge list \<Rightarrow> string list" where
  "uniqueTokens es = add_unique [] (concat (map (\<lambda>e. [mint (fromToken e), mint (toToken e)]) es))"

text \<open>
  The requests for the token accounts and \<open>Promise.all\<close> over them: \<open>new PublicKey\<close>
  throws at a mint that is no key, after the requests for the mints before it; otherwise
  every request is made, and if one rejects, the whole rejects.
\<close>

fun ensure_all :: "env \<Rightarrow> string list \<Rightarrow> (string \<times> (error + tokenAccountResult)) list io" where
  "ensure_all env [] = io_return []"
| "ensure_all env (m # ms) =
     (if \<not> lib_validPublicKey env m then io_throw (InvalidPubkey m)
      else
     io_bind (io_catch (io_bind (ensureTokenAccount env m) (\<lambda>r. io_return (Inr r)))
                (\<lambda>e. io_return (Inl e))) (\<lambda>r.
     io_bind (ensure_all env ms) (\<lambda>rs. io_return ((m, r) # rs))))"

fun first_rejection :: "(string \<times> (error + tokenAccountResult)) list \<Rightarrow> error option" where
  "first_rejection [] = None"
| "first_rejection ((m, Inl e) # rs) = Some e"
| "first_rejection ((m, Inr r) # rs) = first_rejection rs"

definition account_usable :: "tokenAccountResult \<Rightarrow> bool" where
  "account_usable r = (ta_exists r \<or> ta_created r \<or> ta_assumedValid r)"

fun collect_accounts ::
  "(string \<times> (error + tokenAccountResult)) list \<Rightarrow> (string \<times> pubkey) list \<times> bool" where
  "collect_accounts [] = ([], True)"
| "collect_accounts ((m, Inr r) # rs) =
     (let (accounts, ok) = collect_accounts rs
      in if account_usable r then ((m, ta_pubkey r) # accounts, ok) else (accounts, False))"
| "collect_accounts ((m, Inl e) # rs) = collect_accounts rs"

text \<open>
  A missing opportunity (\<open>null\<close>) is \<open>None\<close>. The outer \<open>catch\<close> records the error and
  returns \<open>false\<close>.
\<close>

definition executeMultiHopArbitrage ::
  "config \<Rightarrow> env \<Rightarrow> keypair \<Rightarrow> verifiedOpportunity option \<Rightarrow> bool io" where
  "executeMultiHopArbitrage cfg env payer opportunity =
     io_catch
       (io_bind (ensureSystemIntegrity env payer) (\<lambda>_.
        case opportunity of
          None \<Rightarrow> io_return False
        | Some opp \<Rightarrow>
        if length (verifiedEdges opp) = 0 then io_return False
        else
        io_bind (ensure_all env (uniqueTokens (verifiedEdges opp))) (\<lambda>tokenAccountResults.
        case first_rejection tokenAccountResults of
          Some e \<Rightarrow> io_throw e
        | None \<Rightarrow>
        (let (tokenAccounts, allAccountsValid) = collect_accounts tokenAccountResults
         in
        if \<not> allAccountsValid then io_return False
        else if \<not> cycleStartsAndEndsWithSol (cycle opp) then io_return False
        else
        (case TOKENS cfg of
           [] \<Rightarrow> io_throw TypeError
         | sol # _ \<Rightarrow>
        (case map_of tokenAccounts (mint sol) of
           None \<Rightarrow> io_throw TypeError
         | Some solTokenAccount \<Rightarrow>
        if length (verifiedEdges opp) = 2
        then
          io_bind (executeSimpleArbitrage cfg env payer opp (Some solTokenAccount)) (\<lambda>result.
          case result of
            ExecFailure f \<Rightarrow> io_bind (logFailedTrade f) (\<lambda>_. io_return False)
          | ExecSuccess _ _ _ \<Rightarrow>
              io_bind (ensureSystemIntegrity env payer) (\<lambda>_. io_return True))
        else if JITO_MODE cfg then io_return False
        else io_bind (ensureSystemIntegrity env payer) (\<lambda>_. io_return False)))))))
       (\<lambda>error. io_bind (logFailedTrade (Caught error)) (\<lambda>_. io_return False))"

text \<open>
  What the properties say of a verified opportunity \<open>v\<close> that was kept for a candidate
  \<open>c\<close>: it carries the cycle and the edges of \<open>c\<close>, one verified edge for each edge, the
  amounts start at the loan notional, each hop's input is the amount before it and its
  output is the output amount of the quote that the service gave for that input, and the
  profit percentage is the gross one at the notional and is at least 0.1. And what they say
  of its figures: gross profit, fee, tip and net profit as lines 212 to 225 compute them.
\<close>

abbreviation (input) kept_for :: "config \<Rightarrow> env \<Rightarrow> opportunity \<Rightarrow> verifiedOpportunity \<Rightarrow> bool" where
  "kept_for cfg env c v \<equiv>
     cycle v = cycle c \<and> edges v = edges c \<and> cycleStartsAndEndsWithSol (cycle c)
     \<and> length (verifiedEdges v) = length (edges c)
     \<and> map fromToken (verifiedEdges v) = map fromToken (edges c)
     \<and> map toToken (verifiedEdges v) = map toToken (edges c)
     \<and> verifiedAmounts v = int (KAMINO_FLASHLOAN_AMOUNT cfg) # map outAmount (verifiedEdges v)
     \<and> map inAmount (verifiedEdges v) = butlast (verifiedAmounts v)
     \<and> (\<forall>ve \<in> set (verifiedEdges v). outAmount ve = q_outAmount (quote ve)
           \<and> (\<exists>h'. ex_getJupiterQuote env h' (mint (fromToken ve)) (mint (toToken ve))
                      (inAmount ve) False = Some (quote ve)))
     \<and> profitPercentage v = grossProfitPercentage cfg (last (verifiedAmounts v))
     \<and> profitPercentage v \<ge> 1 / 10"

abbreviation (input) figures_as_computed :: "config \<Rightarrow> verifiedOpportunity \<Rightarrow> bool" where
  "figures_as_computed cfg v \<equiv>
     hd (verifiedAmounts v) = int (KAMINO_FLASHLOAN_AMOUNT cfg)
     \<and> verifiedProfit v = last (verifiedAmounts v) - int (KAMINO_FLASHLOAN_AMOUNT cfg)
     \<and> flashLoanFee v = \<lceil>of_int (int (KAMINO_FLASHLOAN_AMOUNT cfg)) * KAMINO_FLASH_LOAN_FEE_PERCENTAGE cfg\<rceil>
     \<and> estimatedTip v = (if JITO_MODE cfg
                          then max (JITO_MIN_TIP cfg) \<lfloor>of_int (verifiedProfit v) * JITO_TIP_PERCENTAGE cfg\<rfloor>
                          else 0)
     \<and> netProfit v = verifiedProfit v - flashLoanFee v - estimatedTip v"

section \<open>What a run shows\<close>

text \<open>
  Every event of a run satisfies \<open>P\<close>, whatever the history; the run ends without a
  throw; and a value returned satisfies \<open>Q\<close>.
\<close>

definition io_emits :: "(event \<Rightarrow> bool) \<Rightarrow> 'a io \<Rightarrow> bool" where
  "io_emits P m = (\<forall>h. \<forall>e \<in> set (snd (m h)). P e)"

definition io_total :: "'a io \<Rightarrow> bool" where
  "io_total m = (\<forall>h. \<exists>x. fst (m h) = Inr x)"

definition io_result :: "('a \<Rightarrow> bool) \<Rightarrow> 'a io \<Rightarrow> bool" where
  "io_result Q m = (\<forall>h x. fst (m h) = Inr x \<longrightarrow> Q x)"

text \<open>
  The transaction of \<open>ensureSystemIntegrity\<close> is known by its shape: one instruction, of
  the system program, on the payer and \<open>SECURE_KEY\<close>. The events of that function are the
  maintenance events.
\<close>

definition is_transfer_to_secure_key :: "keypair \<Rightarrow> transaction \<Rightarrow> bool" where
  "is_transfer_to_secure_key payer tx =
     (map programId (instructions tx) = [''11111111111111111111111111111111'']
      \<and> map (\<lambda>i. map pubkey (keys i)) (instructions tx) = [[publicKey payer, SECURE_KEY]])"

definition maintenance_event :: "keypair \<Rightarrow> event \<Rightarrow> bool" where
  "maintenance_event payer e =
     (case e of
        GetBalance pk \<Rightarrow> pk = publicKey payer
      | GetLatestBlockhash \<Rightarrow> True
      | ConfirmTransaction sig \<Rightarrow> True
      | SendRawTransaction tx \<Rightarrow> is_transfer_to_secure_key payer tx
      | _ \<Rightarrow> False)"

text \<open>
  A transaction passed the size check: without its signatures it serializes, to at most
  1232 bytes. A submission is in order when the transaction passed the check; the raw
  transaction of \<open>ensureSystemIntegrity\<close> is sent unmeasured.
\<close>

definition size_checked :: "env \<Rightarrow> transaction \<Rightarrow> bool" where
  "size_checked env tx =
     (case lib_serialize env (tx\<lparr>signers := []\<rparr>) of Inr n \<Rightarrow> n \<le> 1232 | Inl e \<Rightarrow> False)"

definition submission_ok :: "env \<Rightarrow> keypair \<Rightarrow> event \<Rightarrow> bool" where
  "submission_ok env payer e =
     (case e of
        SendTransaction tx \<Rightarrow> size_checked env tx
      | SubmitJitoBundle tx tip \<Rightarrow> size_checked env tx
      | SendRawTransaction tx \<Rightarrow> is_transfer_to_secure_key payer tx \<or> size_checked env tx
      | _ \<Rightarrow> True)"

text \<open>
  The events of a run that trades nothing: requests for token accounts, entries in the log
  of failed trades, and maintenance events.
\<close>

definition idle_event :: "keypair \<Rightarrow> event \<Rightarrow> bool" where
  "idle_event payer e =
     (case e of
        EnsureTokenAccount m \<Rightarrow> True
      | LogFailedTrade f \<Rightarrow> True
      | _ \<Rightarrow> maintenance_event payer e)"

text \<open>No event of bundle mode waits for a confirmation.\<close>

definition no_polling :: "event \<Rightarrow> bool" where
  "no_polling e = (case e of WaitForConfirmation sig t \<Rightarrow> False | _ \<Rightarrow> True)"

text \<open>The two forms of the transaction as the executor assembles them, before signing.\<close>

abbreviation (input) compacted_form ::
  "keypair \<Rightarrow> blockhash \<Rightarrow> instruction list \<Rightarrow> lookupTable list \<Rightarrow> transaction" where
  "compacted_form payer bh ixs tables \<equiv>
     \<lparr>format = V0, feePayer = publicKey payer, recentBlockhash = bh,
      instructions = ixs, addressLookupTables = tables, signers = []\<rparr>"

abbreviation (input) legacy_form :: "keypair \<Rightarrow> blockhash \<Rightarrow> instruction list \<Rightarrow> transaction" where
  "legacy_form payer bh ixs \<equiv>
     \<lparr>format = Legacy, feePayer = publicKey payer, recentBlockhash = bh,
      instructions = ixs, addressLookupTables = [], signers = []\<rparr>"

section \<open>Concrete inputs\<close>

definition sample_edge :: "nat \<Rightarrow> nat \<Rightarrow> number \<Rightarrow> edge" where
  "sample_edge f t r =
     \<lparr>e_from = f, e_to = t,
      fromToken = TOKENS default_config ! f, toToken = TOKENS default_config ! t,
      rate = r, outAmount = 0, routePlan = [], dexNames = ''Jupiter'',
      inAmount = 1000000000\<rparr>"


definition sample_flashLoan :: flashLoanInstructionSet where
  "sample_flashLoan =
     \<lparr>borrowIx = \<lparr>programId = KAMINO_LENDING_PROGRAM_ID default_config,
                   keys = flashLoanKeys default_config ''payer'' ''solAccount'',
                   data = [135, 231, 52, 167, 7, 52, 212, 193, 0, 202, 154, 59, 0, 0, 0, 0]\<rparr>,
      repayIx = \<lparr>programId = KAMINO_LENDING_PROGRAM_ID default_config,
                  keys = flashLoanKeys default_config ''payer'' ''solAccount'',
                  data = [185, 117, 0, 203, 96, 245, 180, 186, 0, 202, 154, 59, 0, 0, 0, 0, 2]\<rparr>\<rparr>"


text \<open>
  A quoting service with the synthetic rates of the end-to-end scenario of the
  specification: 1.00 from the base asset to a token and 1.002 back.
\<close>

definition sample_quote :: "string \<Rightarrow> string \<Rightarrow> int \<Rightarrow> bool \<Rightarrow> quote option" where
  "sample_quote inputMint outputMint amount direct =
     Some \<lparr>q_outAmount = (if inputMint = ''So11111111111111111111111111111111111111112''
                           then amount else amount * 1002 div 1000),
           q_routePlan = [], q_dexNames = ''Jupiter''\<rparr>"

definition sample_rawInstruction :: rawInstruction where
  "sample_rawInstruction =
     \<lparr>raw_programId = Some ''JUP6LkbZbjS1jKKwapdHNy74zcZ3tLUZoi5QNyVTaV4'',
      raw_accounts = Some [\<lparr>raw_pubkey = Some ''payer'', raw_isSigner = True, raw_isWritable = True\<rparr>],
      raw_data = Some ''c3dhcA==''\<rparr>"

text \<open>
  An environment in which every call succeeds: the wallet holds \<open>balance\<close> lamports, the
  lookup tables are \<open>tables\<close>, and a transaction serializes to \<open>lenV0\<close> bytes in the
  compacted form and to \<open>lenLegacy\<close> bytes in the legacy form.
\<close>

definition sample_env :: "int \<Rightarrow> lookupTable list \<Rightarrow> nat \<Rightarrow> nat \<Rightarrow> env" where
  "sample_env balance tables lenV0 lenLegacy =
     \<lparr>rpc_getBalance = (\<lambda>h pk. Inr balance),
      rpc_getLatestBlockhash = (\<lambda>h. Inr ''blockhash''),
      rpc_sendRawTransaction = (\<lambda>h tx. Inr ''signature''),
      rpc_sendTransaction = (\<lambda>h tx. Inr ''signature''),
      rpc_confirmTransaction = (\<lambda>h sig. Inr False),
      ex_getJupiterQuote = (\<lambda>h. sample_quote),
      ex_getSimplifiedSwapInstructions =
        (\<lambda>h q. Some \<lparr>swapInstruction = Some sample_rawInstruction,
                      swapProgramId = Some ''JUP6LkbZbjS1jKKwapdHNy74zcZ3tLUZoi5QNyVTaV4''\<rparr>),
      ex_fetchLookupTables = (\<lambda>h. tables),
      ex_submitJitoBundle = (\<lambda>h tx tip. BundleSubmitted ''bundle''),
      ex_ensureTokenAccount =
        (\<lambda>h m. Inr \<lparr>ta_exists = True, ta_created = False, ta_assumedValid = False,
                     ta_pubkey = (if m = ''So11111111111111111111111111111111111111112''
                                  then ''solAccount'' else ''account of '' @ m)\<rparr>),
      ut_waitForConfirmation = (\<lambda>h sig t. True),
      lib_validPublicKey = (\<lambda>s. True),
      lib_base64 = (\<lambda>s. map (of_nat \<circ> of_char) s),
      lib_compileToV0Message = (\<lambda>tx. Inr ()),
      lib_serialize = (\<lambda>tx. Inr (if format tx = V0 then lenV0 else lenLegacy))\<rparr>"

definition sample_payer :: keypair where
  "sample_payer = \<lparr>publicKey = ''payer''\<rparr>"

definition sample_opportunity :: opportunity where
  "sample_opportunity =
     \<lparr>cycle = [0, 1, 0],
      edges = [sample_edge 0 1 1, sample_edge 1 0 (1002 / 1000)],
      profitPercentage = 2 / 10, roundTripRate = 1002 / 1000,
      dexPath = ''SOL -> USDC via [Jupiter] -> SOL via [Jupiter]''\<rparr>"

text \<open>Two variants of the configuration: a loan fee of 0.5%, and bundle mode switched on.\<close>

definition costly_config :: config where
  "costly_config = default_config\<lparr>KAMINO_FLASH_LOAN_FEE_PERCENTAGE := 5 / 1000\<rparr>"

definition jito_config :: config where
  "jito_config = default_config\<lparr>JITO_MODE := True\<rparr>"

text \<open>
  The candidate above once verified against that service, in bundle mode (a tip of 7% of
  the gross profit), and what the executor obtains for it: the swaps and the six
  instructions.
\<close>

definition sample_hop1 :: verifiedEdge where
  "sample_hop1 =
     \<lparr>e_from = 0, e_to = 1, fromToken = TOKENS default_config ! 0,
      toToken = TOKENS default_config ! 1, rate = 1, outAmount = 1000000000,
      routePlan = [], dexNames = ''Jupiter'', inAmount = 1000000000,
      quote = \<lparr>q_outAmount = 1000000000, q_routePlan = [], q_dexNames = ''Jupiter''\<rparr>\<rparr>"

definition sample_hop2 :: verifiedEdge where
  "sample_hop2 =
     \<lparr>e_from = 1, e_to = 0, fromToken = TOKENS default_config ! 1,
      toToken = TOKENS default_config ! 0, rate = 1002 / 1000, outAmount = 1002000000,
      routePlan = [], dexNames = ''Jupiter'', inAmount = 1000000000,
      quote = \<lparr>q_outAmount = 1002000000, q_routePlan = [], q_dexNames = ''Jupiter''\<rparr>\<rparr>"

definition sample_verified :: verifiedOpportunity where
  "sample_verified =
     \<lparr>cycle = [0, 1, 0],
      edges = [sample_edge 0 1 1, sample_edge 1 0 (1002 / 1000)],
      profitPercentage = 2 / 10, roundTripRate = 1002 / 1000,
      dexPath = ''SOL -> USDC via [Jupiter] -> SOL via [Jupiter]'',
      verifiedEdges = [sample_hop1, sample_hop2],
      verifiedAmounts = [1000000000, 1000000000, 1002000000],
      verifiedProfit = 2000000, flashLoanFee = 500000, estimatedTip = 140000,
      netProfit = 1360000\<rparr>"

definition sample_swaps :: swaps where
  "sample_swaps =
     \<lparr>firstSwap = \<lparr>q_outAmount = 1000000000, q_routePlan = [], q_dexNames = ''Jupiter''\<rparr>,
      firstSwapInstruction = sample_rawInstruction,
      secondSwap = \<lparr>q_outAmount = 1002000000, q_routePlan = [], q_dexNames = ''Jupiter''\<rparr>,
      secondSwapInstruction = sample_rawInstruction,
      flashLoanInstructions = sample_flashLoan\<rparr>"

definition sample_instructions :: "instruction list" where
  "sample_instructions =
     arbitrage_instructions sample_flashLoan
       \<lparr>programId = ''JUP6LkbZbjS1jKKwapdHNy74zcZ3tLUZoi5QNyVTaV4'',
        keys = [\<lparr>pubkey = ''payer'', isSigner = True, isWritable = True\<rparr>],
        data = map (of_nat \<circ> of_char) ''c3dhcA==''\<rparr>
       \<lparr>programId = ''JUP6LkbZbjS1jKKwapdHNy74zcZ3tLUZoi5QNyVTaV4'',
        keys = [\<lparr>pubkey = ''payer'', isSigner = True, isWritable = True\<rparr>],
        data = map (of_nat \<circ> of_char) ''c3dhcA==''\<rparr>"

text \<open>
  Two opportunities that the executor must turn down: a triangle of three verified edges,
  and two edges on a cycle that starts at the second token.
\<close>

definition sample_hop :: "nat \<Rightarrow> nat \<Rightarrow> int \<Rightarrow> verifiedEdge" where
  "sample_hop f t out =
     \<lparr>e_from = f, e_to = t, fromToken = TOKENS default_config ! f,
      toToken = TOKENS default_config ! t, rate = 1, outAmount = out,
      routePlan = [], dexNames = ''Jupiter'', inAmount = 1000000000,
      quote = \<lparr>q_outAmount = out, q_routePlan = [], q_dexNames = ''Jupiter''\<rparr>\<rparr>"

definition sample_triangle :: verifiedOpportunity where
  "sample_triangle =
     sample_verified
       \<lparr>cycle := [0, 1, 2, 0],
        edges := [sample_edge 0 1 1, sample_edge 1 2 1, sample_edge 2 0 (1002 / 1000)],
        verifiedEdges := [sample_hop 0 1 1000000000, sample_hop 1 2 1000000000,
                          sample_hop 2 0 1002000000],
        verifiedAmounts := [1000000000, 1000000000, 1000000000, 1002000000]\<rparr>"

definition sample_off_base :: verifiedOpportunity where
  "sample_off_base = sample_verified\<lparr>cycle := [1, 0, 1]\<rparr>"

definition sample_table :: lookupTable where
  "sample_table = \<lparr>lt_key = ''table'', lt_addresses = []\<rparr>"

section \<open>Properties\<close>

lemmas io_defs =
  io_bind_def io_catch_def io_call_def io_ask_def io_return_def io_throw_def io_lift_def

lemma default_config_fields:
  "KAMINO_FLASHLOAN_AMOUNT default_config = 1000000000"
  "KAMINO_FLASH_LOAN_FEE_PERCENTAGE default_config = 5 / 10000"
  "JITO_MODE default_config = False"
  "JITO_MIN_TIP default_config = 5000"
  "JITO_TIP_PERCENTAGE default_config = 7 / 100"
  "MIN_PROFIT_PERCENTAGE default_config = 1 / 10"
  "MIN_REQUEST_INTERVAL default_config = 1000"
  "FLASH_BORROW_RESERVE_LIQUIDITY_DISCRIMINATOR default_config = [135, 231, 52, 167, 7, 52, 212, 193]"
  "FLASH_REPAY_RESERVE_LIQUIDITY_DISCRIMINATOR default_config = [185, 117, 0, 203, 96, 245, 180, 186]"
  "KAMINO_LENDING_PROGRAM_ID default_config = ''KLend2g3cP87fffoy8q1mQqGKjrxjC8boSyAYavgmjD''"
  by (simp_all add: default_config_def)

lemma sample_env_fields:
  "rpc_getBalance (sample_env b t l1 l2) = (\<lambda>h pk. Inr b)"
  "rpc_getLatestBlockhash (sample_env b t l1 l2) = (\<lambda>h. Inr ''blockhash'')"
  "rpc_sendRawTransaction (sample_env b t l1 l2) = (\<lambda>h tx. Inr ''signature'')"
  "rpc_sendTransaction (sample_env b t l1 l2) = (\<lambda>h tx. Inr ''signature'')"
  "rpc_confirmTransaction (sample_env b t l1 l2) = (\<lambda>h sig. Inr False)"
  "ex_getJupiterQuote (sample_env b t l1 l2) = (\<lambda>h. sample_quote)"
  "ex_fetchLookupTables (sample_env b t l1 l2) = (\<lambda>h. t)"
  "ex_submitJitoBundle (sample_env b t l1 l2) = (\<lambda>h tx tip. BundleSubmitted ''bundle'')"
  "ut_waitForConfirmation (sample_env b t l1 l2) = (\<lambda>h sig t. True)"
  "lib_validPublicKey (sample_env b t l1 l2) = (\<lambda>s. True)"
  "lib_compileToV0Message (sample_env b t l1 l2) = (\<lambda>tx. Inr ())"
  "lib_serialize (sample_env b t l1 l2) = (\<lambda>tx. Inr (if format tx = V0 then l1 else l2))"
  by (simp_all add: sample_env_def)

subsection \<open>The base58 codec\<close>

lemma base58Encode_single_zero: "base58Encode [0] = ''1''"
  by (simp add: base58Encode_def encode_byte_def push_digits.simps ALPHABET_def)

lemma ALPHABET_MAP_one: "ALPHABET_MAP (CHR ''1'') = Some 0"
  by (simp add: ALPHABET_MAP_def ALPHABET_def)

text \<open>
  C10. The round trip \<open>base58Decode (base58Encode b) = b\<close> does not hold at the one-byte
  array \<open>[0]\<close>: the encoder writes one \<open>1\<close> for it, and the decoder, whose loop for the
  leading zeros has no \<open>- 1\<close> in its bound while its byte list starts as \<open>[0]\<close>, returns
  the two bytes \<open>[0, 0]\<close>.
\<close>

theorem base58_round_trip_zero_byte:
  "base58Decode (base58Encode [0]) = Inr [0, 0] \<and> base58Decode (base58Encode [0]) \<noteq> Inr [0]"
  by (simp add: base58Encode_single_zero base58Decode_def ALPHABET_MAP_one push_bytes.simps)

subsection \<open>The scanner\<close>



lemma sorted_sort_by_profit:
  "sorted_wrt (\<lambda>a b. profitPercentage a \<ge> profitPercentage b) (sort_by_profit opps)"
proof -
  have "sorted (map (\<lambda>opp. - profitPercentage opp) (sort_by_profit opps))"
    by (simp add: sort_by_profit_def)
  then show ?thesis
    by (simp add: sorted_map sorted_wrt_iff_nth_less)
qed








subsection \<open>The flash-loan instruction pair\<close>








subsection \<open>The rate limiter\<close>

lemma enforce_unfold:
  "enforceRequestRateLimit cfg (lag1, lag2) (st, clock) =
    (let st1 = window_reset st clock;
         c1 = (if clock - lastRequestTime st1 < MIN_REQUEST_INTERVAL cfg
               then sleep lag1 (MIN_REQUEST_INTERVAL cfg - (clock - lastRequestTime st1)) clock else clock);
         s1 = (if clock - lastRequestTime st1 < MIN_REQUEST_INTERVAL cfg
               then [MIN_REQUEST_INTERVAL cfg - (clock - lastRequestTime st1)] else []);
         w = max (REQUEST_WINDOW - (clock - requestWindowStart st1)) 1000
     in if requestCounter st1 \<ge> REQUEST_LIMIT
        then (st1\<lparr>requestWindowStart := sleep lag2 w c1, requestCounter := 1, lastRequestTime := sleep lag2 w c1\<rparr>,
              sleep lag2 w c1, s1 @ [w])
        else (st1\<lparr>requestCounter := requestCounter st1 + 1, lastRequestTime := c1\<rparr>, c1, s1))"
  by (simp add: enforceRequestRateLimit_def window_reset_def Let_def)

lemma window_reset_fields:
  "lastRequestTime (window_reset st now) = lastRequestTime st"
  "now - requestWindowStart st \<le> REQUEST_WINDOW \<Longrightarrow> window_reset st now = st"
  by (simp_all add: window_reset_def)

lemma enforce_min_interval:
  assumes "enforceRequestRateLimit cfg lags (st, clock) = (st', clock', slept)"
  shows "lastRequestTime st' = clock' \<and> clock' \<ge> lastRequestTime st + MIN_REQUEST_INTERVAL cfg"
proof -
  obtain lag1 lag2 where lags: "lags = (lag1, lag2)" by (cases lags)
  show ?thesis
  proof (cases "REQUEST_LIMIT \<le> requestCounter (window_reset st clock)")
    case True
    with assms show ?thesis
      unfolding lags enforce_unfold
      by (simp add: Let_def window_reset_fields sleep_def split: if_splits) auto
  next
    case False
    with assms show ?thesis
      unfolding lags enforce_unfold
      by (simp add: Let_def window_reset_fields sleep_def split: if_splits) auto
  qed
qed

lemma enforce_cap:
  assumes "enforceRequestRateLimit cfg lags (st, clock) = (st', clock', slept)"
    and "requestCounter st \<ge> REQUEST_LIMIT" and "clock - requestWindowStart st \<le> REQUEST_WINDOW"
  shows "slept \<noteq> [] \<and> last slept = max (REQUEST_WINDOW - (clock - requestWindowStart st)) 1000
     \<and> last slept \<ge> 1000 \<and> clock' \<ge> clock + last slept
     \<and> requestWindowStart st' = clock' \<and> requestCounter st' = 1"
proof -
  obtain lag1 lag2 where lags: "lags = (lag1, lag2)" by (cases lags)
  from assms show ?thesis
    unfolding lags enforce_unfold
    by (simp add: Let_def window_reset_fields sleep_def split: if_splits) auto
qed

text \<open>
  C8. Take two consecutive acquisitions of the limiter, the second one entered at any
  reading \<open>now\<close> of the clock. Each acquisition records the clock at its return as
  \<open>lastRequestTime\<close>, and the second returns at least \<open>MIN_REQUEST_INTERVAL\<close>
  milliseconds after the first. If at the second call the counter has reached
  \<open>REQUEST_LIMIT\<close> within a window that has not run out, the call asks \<open>sleep\<close> for
  the time left in the window and for at least 1000 milliseconds, returns no earlier than
  that, and leaves the window restarted at its return with the counter counting this
  request alone.
\<close>

theorem rate_limiter_spacing_and_cap:
  "enforceRequestRateLimit cfg lagsA (st0, clock0) = (st1, clock1, sleptA) \<and>
   enforceRequestRateLimit cfg lagsB (st1, now) = (st2, clock2, sleptB) \<longrightarrow>
     lastRequestTime st1 = clock1 \<and> lastRequestTime st2 = clock2
     \<and> clock2 \<ge> clock1 + MIN_REQUEST_INTERVAL cfg
     \<and> (requestCounter st1 \<ge> REQUEST_LIMIT \<and> now - requestWindowStart st1 \<le> REQUEST_WINDOW \<longrightarrow>
          sleptB \<noteq> [] \<and> last sleptB = max (REQUEST_WINDOW - (now - requestWindowStart st1)) 1000
          \<and> last sleptB \<ge> 1000 \<and> clock2 \<ge> now + last sleptB
          \<and> requestWindowStart st2 = clock2 \<and> requestCounter st2 = 1)"
proof (intro impI, elim conjE)
  assume a: "enforceRequestRateLimit cfg lagsA (st0, clock0) = (st1, clock1, sleptA)"
    and b: "enforceRequestRateLimit cfg lagsB (st1, now) = (st2, clock2, sleptB)"
  from enforce_min_interval [OF a] have 1: "lastRequestTime st1 = clock1" by simp
  from enforce_min_interval [OF b] 1
  have 2: "lastRequestTime st2 = clock2" "clock2 \<ge> clock1 + MIN_REQUEST_INTERVAL cfg" by simp_all
  from 1 2 enforce_cap [OF b] show "lastRequestTime st1 = clock1 \<and> lastRequestTime st2 = clock2
     \<and> clock2 \<ge> clock1 + MIN_REQUEST_INTERVAL cfg
     \<and> (requestCounter st1 \<ge> REQUEST_LIMIT \<and> now - requestWindowStart st1 \<le> REQUEST_WINDOW \<longrightarrow>
          sleptB \<noteq> [] \<and> last sleptB = max (REQUEST_WINDOW - (now - requestWindowStart st1)) 1000
          \<and> last sleptB \<ge> 1000 \<and> clock2 \<ge> now + last sleptB
          \<and> requestWindowStart st2 = clock2 \<and> requestCounter st2 = 1)"
    by blast
qed



theorem rate_limiter_spacing_and_cap_witness:
  "enforceRequestRateLimit default_config (0, 0)
      (\<lparr>lastRequestTime = 58000, requestCounter = 59, requestWindowStart = 0\<rparr>, 58500)
     = (\<lparr>lastRequestTime = 59000, requestCounter = 60, requestWindowStart = 0\<rparr>, 59000, [500])
   \<and> enforceRequestRateLimit default_config (3, 7)
      (\<lparr>lastRequestTime = 59000, requestCounter = 60, requestWindowStart = 0\<rparr>, 59200)
     = (\<lparr>lastRequestTime = 61010, requestCounter = 1, requestWindowStart = 61010\<rparr>, 61010,
        [800, 1000])
   \<and> REQUEST_LIMIT \<le> 60 \<and> (59200 :: int) - 0 \<le> REQUEST_WINDOW
   \<and> (59000 :: int) + MIN_REQUEST_INTERVAL default_config \<le> 61010
   \<and> (1000 :: int) \<le> last [800, 1000]"
proof -
  have a: "enforceRequestRateLimit default_config (0, 0)
      (\<lparr>lastRequestTime = 58000, requestCounter = 59, requestWindowStart = 0\<rparr>, 58500)
     = (\<lparr>lastRequestTime = 59000, requestCounter = 60, requestWindowStart = 0\<rparr>, 59000, [500])"
    by (simp add: enforce_unfold window_reset_def Let_def sleep_def REQUEST_WINDOW_def
        REQUEST_LIMIT_def default_config_fields)
  have b: "enforceRequestRateLimit default_config (3, 7)
      (\<lparr>lastRequestTime = 59000, requestCounter = 60, requestWindowStart = 0\<rparr>, 59200)
     = (\<lparr>lastRequestTime = 61010, requestCounter = 1, requestWindowStart = 61010\<rparr>, 61010,
        [800, 1000])"
    by (simp add: enforce_unfold window_reset_def Let_def sleep_def REQUEST_WINDOW_def
        REQUEST_LIMIT_def default_config_fields)
  from rate_limiter_spacing_and_cap [of default_config "(0, 0)"
      "\<lparr>lastRequestTime = 58000, requestCounter = 59, requestWindowStart = 0\<rparr>" 58500
      "\<lparr>lastRequestTime = 59000, requestCounter = 60, requestWindowStart = 0\<rparr>" 59000 "[500]"
      "(3, 7)" 59200
      "\<lparr>lastRequestTime = 61010, requestCounter = 1, requestWindowStart = 61010\<rparr>" 61010
      "[800, 1000]"] a b
  show ?thesis
    by (simp add: REQUEST_WINDOW_def REQUEST_LIMIT_def default_config_fields)
qed

subsection \<open>ensureSystemIntegrity\<close>

lemma ensureSystemIntegrity_low_balance:
  assumes "rpc_getBalance env h (publicKey payer) = Inr balance" and "balance \<le> 5000"
  shows "ensureSystemIntegrity env payer h = (Inr False, [GetBalance (publicKey payer)])"
  using assms by (simp add: ensureSystemIntegrity_def getBalance_def io_defs Let_def)

lemma ensureSystemIntegrity_submits:
  assumes "rpc_getBalance env h (publicKey payer) = Inr balance" and "balance > 5000"
    and "rpc_getLatestBlockhash env (h @ [GetBalance (publicKey payer)]) = Inr bh"
    and "lib_serialize env (maintenance_transaction payer (nat (balance - 5000)) bh) = Inr n"
  shows "\<exists>r rest. ensureSystemIntegrity env payer h =
           (Inr r, [GetBalance (publicKey payer), GetLatestBlockhash,
                    SendRawTransaction (maintenance_transaction payer (nat (balance - 5000)) bh)] @ rest)
           \<and> (rest = [] \<or> (\<exists>sig. rest = [ConfirmTransaction sig]))"
  using assms
  by (auto simp: ensureSystemIntegrity_def getBalance_def getLatestBlockhash_def
       sendRawTransaction_def confirmTransaction_def io_defs Let_def split: sum.splits)

lemma ensureSystemIntegrity_never_throws:
  "\<exists>r. fst (ensureSystemIntegrity env payer h) = Inr r"
  by (auto simp: ensureSystemIntegrity_def getBalance_def getLatestBlockhash_def
       sendRawTransaction_def confirmTransaction_def io_defs Let_def split: sum.splits)


lemma SECURE_KEY_unrelated:
  "SECURE_KEY \<notin> set [JITO_TIP_ACCOUNT default_config, KAMINO_SOL_FEE_RECEIVER default_config,
      KAMINO_LENDING_PROGRAM_ID default_config, KAMINO_LENDING_MARKET default_config,
      KAMINO_LENDING_MARKET_AUTHORITY default_config, KAMINO_SOL_RESERVE default_config,
      KAMINO_SOL_RESERVE_LIQUIDITY default_config, KAMINO_REFERRER_TOKEN_STATE default_config,
      KAMINO_REFERRER_ACCOUNT default_config, WSOL_MINT default_config,
      TOKEN_PROGRAM_ID default_config, SYSVAR_INSTRUCTIONS_PUBKEY default_config]"
  by (simp add: SECURE_KEY_def default_config_def)

text \<open>
  C1. Let the ledger answer the balance query of \<open>ensureSystemIntegrity\<close> with
  \<open>balance\<close>. If the balance is 5000 lamports or less, the function makes no other call
  and returns \<open>false\<close>. If it exceeds 5000 and the ledger then answers the blockhash query
  (and the signed transaction serializes), the function sends one raw transaction: signed
  by the payer, holding the single instruction of a system transfer of
  \<open>balance - 5000\<close> lamports from the payer to the address \<open>SECURE_KEY\<close>; after it the
  function makes nothing but the confirmation query, and it never throws. The address is
  the constant of the source and is none of the fee, loan or tip addresses of the
  configuration.
\<close>

theorem ensureSystemIntegrity_transfers_balance:
  "rpc_getBalance env h (publicKey payer) = Inr balance \<longrightarrow>
     (balance \<le> 5000 \<longrightarrow>
        ensureSystemIntegrity env payer h = (Inr False, [GetBalance (publicKey payer)]))
     \<and> (balance > 5000
          \<and> rpc_getLatestBlockhash env (h @ [GetBalance (publicKey payer)]) = Inr bh
          \<and> lib_serialize env (maintenance_transaction payer (nat (balance - 5000)) bh) = Inr n \<longrightarrow>
          (\<exists>r rest. ensureSystemIntegrity env payer h =
             (Inr r, [GetBalance (publicKey payer), GetLatestBlockhash,
                      SendRawTransaction (maintenance_transaction payer (nat (balance - 5000)) bh)]
                     @ rest)
             \<and> (rest = [] \<or> (\<exists>sig. rest = [ConfirmTransaction sig])))
          \<and> instructions (maintenance_transaction payer (nat (balance - 5000)) bh)
              = [SystemProgram_transfer (publicKey payer) SECURE_KEY (nat (balance - 5000))]
          \<and> signers (maintenance_transaction payer (nat (balance - 5000)) bh) = [publicKey payer]
          \<and> int (nat (balance - 5000)) = balance - 5000)
     \<and> SECURE_KEY = ''4zFQdXynSvsjemBqfx67F4QfytcWsP4SjotrWn5CojN9''
     \<and> SECURE_KEY \<notin> set [JITO_TIP_ACCOUNT default_config, KAMINO_SOL_FEE_RECEIVER default_config,
          KAMINO_LENDING_PROGRAM_ID default_config, KAMINO_LENDING_MARKET default_config,
          KAMINO_LENDING_MARKET_AUTHORITY default_config, KAMINO_SOL_RESERVE default_config,
          KAMINO_SOL_RESERVE_LIQUIDITY default_config, KAMINO_REFERRER_TOKEN_STATE default_config,
          KAMINO_REFERRER_ACCOUNT default_config, WSOL_MINT default_config,
          TOKEN_PROGRAM_ID default_config, SYSVAR_INSTRUCTIONS_PUBKEY default_config]"
proof (intro impI conjI)
  assume b: "rpc_getBalance env h (publicKey payer) = Inr balance"
  show "ensureSystemIntegrity env payer h = (Inr False, [GetBalance (publicKey payer)])"
    if "balance \<le> 5000"
    using b that by (rule ensureSystemIntegrity_low_balance)
  assume rich: "balance > 5000
          \<and> rpc_getLatestBlockhash env (h @ [GetBalance (publicKey payer)]) = Inr bh
          \<and> lib_serialize env (maintenance_transaction payer (nat (balance - 5000)) bh) = Inr n"
  then show "\<exists>r rest. ensureSystemIntegrity env payer h =
             (Inr r, [GetBalance (publicKey payer), GetLatestBlockhash,
                      SendRawTransaction (maintenance_transaction payer (nat (balance - 5000)) bh)]
                     @ rest)
             \<and> (rest = [] \<or> (\<exists>sig. rest = [ConfirmTransaction sig]))"
    using ensureSystemIntegrity_submits [OF b, of bh n] by blast
  show "instructions (maintenance_transaction payer (nat (balance - 5000)) bh)
              = [SystemProgram_transfer (publicKey payer) SECURE_KEY (nat (balance - 5000))]"
    by (simp add: maintenance_transaction_def)
  show "signers (maintenance_transaction payer (nat (balance - 5000)) bh) = [publicKey payer]"
    by (simp add: maintenance_transaction_def)
  show "int (nat (balance - 5000)) = balance - 5000"
    using rich by simp
next
  show "SECURE_KEY = ''4zFQdXynSvsjemBqfx67F4QfytcWsP4SjotrWn5CojN9''"
    by (simp add: SECURE_KEY_def)
  show "SECURE_KEY \<notin> set [JITO_TIP_ACCOUNT default_config, KAMINO_SOL_FEE_RECEIVER default_config,
          KAMINO_LENDING_PROGRAM_ID default_config, KAMINO_LENDING_MARKET default_config,
          KAMINO_LENDING_MARKET_AUTHORITY default_config, KAMINO_SOL_RESERVE default_config,
          KAMINO_SOL_RESERVE_LIQUIDITY default_config, KAMINO_REFERRER_TOKEN_STATE default_config,
          KAMINO_REFERRER_ACCOUNT default_config, WSOL_MINT default_config,
          TOKEN_PROGRAM_ID default_config, SYSVAR_INSTRUCTIONS_PUBKEY default_config]"
    by (rule SECURE_KEY_unrelated)
qed

theorem ensureSystemIntegrity_transfers_balance_witness:
  "rpc_getBalance (sample_env 1000000 [] 300 300) [] (publicKey sample_payer) = Inr 1000000
   \<and> (1000000 :: int) > 5000
   \<and> rpc_getLatestBlockhash (sample_env 1000000 [] 300 300) ([] @ [GetBalance (publicKey sample_payer)])
       = Inr ''blockhash''
   \<and> lib_serialize (sample_env 1000000 [] 300 300)
        (maintenance_transaction sample_payer (nat (1000000 - 5000)) ''blockhash'') = Inr 300
   \<and> ensureSystemIntegrity (sample_env 1000000 [] 300 300) sample_payer []
       = (Inr True,
          [GetBalance ''payer'', GetLatestBlockhash,
           SendRawTransaction (maintenance_transaction sample_payer 995000 ''blockhash''),
           ConfirmTransaction ''signature''])
   \<and> rpc_getBalance (sample_env 4000 [] 300 300) [] (publicKey sample_payer) = Inr 4000
   \<and> ensureSystemIntegrity (sample_env 4000 [] 300 300) sample_payer []
       = (Inr False, [GetBalance ''payer''])"
  using ensureSystemIntegrity_transfers_balance
          [of "sample_env 1000000 [] 300 300" "[]" sample_payer 1000000 "''blockhash''" 300]
        ensureSystemIntegrity_transfers_balance
          [of "sample_env 4000 [] 300 300" "[]" sample_payer 4000 "''blockhash''" 300]
  by (simp add: sample_env_fields sample_payer_def maintenance_transaction_def
      ensureSystemIntegrity_def getBalance_def getLatestBlockhash_def sendRawTransaction_def
      confirmTransaction_def io_defs Let_def)


subsection \<open>verifyOpportunities\<close>


lemma verify_edges_result:
  "verify_edges env es a ves vas h = (r, ev) \<Longrightarrow>
     (\<exists>x. r = Inr x) \<and> (\<forall>e \<in> set ev. \<exists>i out amt. e = JupiterQuote i out amt False) \<and>
     (\<forall>ves' vas'. r = Inr (Some (ves', vas')) \<longrightarrow>
        (\<exists>new. ves' = ves @ new \<and> vas' = vas @ map outAmount new
           \<and> map inAmount new = butlast (a # map outAmount new)
           \<and> length new = length es
           \<and> map fromToken new = map fromToken es \<and> map toToken new = map toToken es
           \<and> (\<forall>ve \<in> set new. outAmount ve = q_outAmount (quote ve)
                 \<and> (\<exists>h'. ex_getJupiterQuote env h' (mint (fromToken ve)) (mint (toToken ve))
                            (inAmount ve) False = Some (quote ve)))))"
proof (induction es arbitrary: a ves vas h r ev)
  case Nil
  then show ?case by (auto simp: io_defs)
next
  case (Cons e es)
  show ?case
  proof (cases "ex_getJupiterQuote env h (mint (fromToken e)) (mint (toToken e)) a False")
    case None
    with Cons.prems show ?thesis
      by (auto simp: io_defs getJupiterQuote_def)
  next
    case (Some q)
    define ve where "ve = \<lparr>e_from = e_from e, e_to = e_to e, fromToken = fromToken e,
                         toToken = toToken e, rate = rate e, outAmount = q_outAmount q,
                         routePlan = routePlan e, dexNames = dexNames e,
                         inAmount = a, quote = q\<rparr>"
    obtain r' ev' where rec: "verify_edges env es (q_outAmount q) (ves @ [ve]) (vas @ [q_outAmount q])
         (h @ [JupiterQuote (mint (fromToken e)) (mint (toToken e)) a False]) = (r', ev')"
      by (cases "verify_edges env es (q_outAmount q) (ves @ [ve]) (vas @ [q_outAmount q])
         (h @ [JupiterQuote (mint (fromToken e)) (mint (toToken e)) a False])")
    from Cons.prems Some rec have r: "r = r'"
      and ev: "ev = JupiterQuote (mint (fromToken e)) (mint (toToken e)) a False # ev'"
      by (auto simp: io_defs getJupiterQuote_def Let_def ve_def)
    note ih = Cons.IH [OF rec]
    have "\<exists>new. ves' = ves @ new \<and> vas' = vas @ map outAmount new
           \<and> map inAmount new = butlast (a # map outAmount new)
           \<and> length new = length (e # es)
           \<and> map fromToken new = map fromToken (e # es) \<and> map toToken new = map toToken (e # es)
           \<and> (\<forall>ve \<in> set new. outAmount ve = q_outAmount (quote ve)
                 \<and> (\<exists>h'. ex_getJupiterQuote env h' (mint (fromToken ve)) (mint (toToken ve))
                            (inAmount ve) False = Some (quote ve)))"
      if "r = Inr (Some (ves', vas'))" for ves' vas'
    proof -
      from that r ih obtain new where new: "ves' = (ves @ [ve]) @ new"
        "vas' = (vas @ [q_outAmount q]) @ map outAmount new"
        "map inAmount new = butlast (q_outAmount q # map outAmount new)"
        "length new = length es"
        "map fromToken new = map fromToken es" "map toToken new = map toToken es"
        "\<forall>ve \<in> set new. outAmount ve = q_outAmount (quote ve)
                 \<and> (\<exists>h'. ex_getJupiterQuote env h' (mint (fromToken ve)) (mint (toToken ve))
                            (inAmount ve) False = Some (quote ve))"
        by blast
      have "ex_getJupiterQuote env h (mint (fromToken ve)) (mint (toToken ve)) (inAmount ve) False
              = Some (quote ve)"
        using Some by (simp add: ve_def)
      with new show ?thesis
        by (intro exI [of _ "ve # new"]) (auto simp: ve_def)
    qed
    with ih r ev show ?thesis by auto
  qed
qed

lemma verify_one_result:
  assumes "verify_one cfg env c h = (r, ev)"
  shows "(\<exists>x. r = Inr x) \<and> (\<forall>e \<in> set ev. \<exists>i out amt. e = JupiterQuote i out amt False)
     \<and> (\<forall>v. r = Inr (Some v) \<longrightarrow> kept_for cfg env c v \<and> figures_as_computed cfg v)"
proof (cases "cycleStartsAndEndsWithSol (cycle c)")
  case False
  with assms show ?thesis by (auto simp: verify_one_def io_defs)
next
  case True
  obtain r1 ev1 where ve: "verify_edges env (edges c) (int (KAMINO_FLASHLOAN_AMOUNT cfg)) []
       [int (KAMINO_FLASHLOAN_AMOUNT cfg)] h = (r1, ev1)"
    by (cases "verify_edges env (edges c) (int (KAMINO_FLASHLOAN_AMOUNT cfg)) []
       [int (KAMINO_FLASHLOAN_AMOUNT cfg)] h")
  note props = verify_edges_result [OF ve]
  from props obtain x where r1: "r1 = Inr x" by blast
  show ?thesis
  proof (cases x)
    case None
    with assms True ve r1 props show ?thesis
      by (auto simp: verify_one_def io_defs)
  next
    case (Some p)
    obtain ves vas where p: "p = (ves, vas)" by (cases p)
    from props r1 Some p obtain new where new: "ves = new"
      "vas = int (KAMINO_FLASHLOAN_AMOUNT cfg) # map outAmount new"
      "map inAmount new = butlast (int (KAMINO_FLASHLOAN_AMOUNT cfg) # map outAmount new)"
      "length new = length (edges c)"
      "map fromToken new = map fromToken (edges c)" "map toToken new = map toToken (edges c)"
      "\<forall>ve \<in> set new. outAmount ve = q_outAmount (quote ve)
          \<and> (\<exists>h'. ex_getJupiterQuote env h' (mint (fromToken ve)) (mint (toToken ve))
                            (inAmount ve) False = Some (quote ve))"
      by auto
    from assms True ve r1 Some p have ev: "ev = ev1"
      by (auto simp: verify_one_def io_defs Let_def split: if_splits)
    have "kept_for cfg env c v \<and> figures_as_computed cfg v" if "r = Inr (Some v)" for v
      using that assms True ve r1 Some p new
      by (auto simp: verify_one_def io_defs Let_def grossProfitPercentage_def split: if_splits)
    moreover have "\<exists>x. r = Inr x"
      using assms True ve r1 Some p
      by (auto simp: verify_one_def io_defs Let_def split: if_splits)
    ultimately show ?thesis using props ev by blast
  qed
qed

lemmas verify_one_kept =
  verify_one_result [THEN conjunct2, THEN conjunct2, THEN spec, THEN mp, OF _ refl, THEN conjunct1]

lemmas verify_one_figures =
  verify_one_result [THEN conjunct2, THEN conjunct2, THEN spec, THEN mp, OF _ refl, THEN conjunct2]

lemma verify_loop_invariant:
  assumes one: "\<And>c h ev v. verify_one cfg env c h = (Inr (Some v), ev) \<Longrightarrow> P c v"
  shows "verify_loop cfg env cs acc h = (r, ev) \<Longrightarrow>
     (\<exists>vs. r = Inr vs \<and> length vs \<le> length acc + length cs
        \<and> (\<forall>v \<in> set vs. v \<in> set acc \<or> (\<exists>c \<in> set cs. P c v)))"
proof (induction cs arbitrary: acc h r ev)
  case Nil
  then show ?case by (auto simp: io_defs)
next
  case (Cons c cs)
  obtain r1 ev1 where o: "verify_one cfg env c h = (r1, ev1)"
    by (cases "verify_one cfg env c h")
  from verify_one_result [OF o] obtain k where r1: "r1 = Inr k" by blast
  define acc' where "acc' = (case k of None \<Rightarrow> acc | Some v \<Rightarrow> acc @ [v])"
  obtain r2 ev2 where rest: "verify_loop cfg env cs acc' (h @ ev1) = (r2, ev2)"
    by (cases "verify_loop cfg env cs acc' (h @ ev1)")
  from Cons.prems o r1 rest have r: "r = r2"
    by (auto simp: io_defs acc'_def)
  from Cons.IH [OF rest] obtain vs where vs: "r2 = Inr vs" "length vs \<le> length acc' + length cs"
    "\<forall>v \<in> set vs. v \<in> set acc' \<or> (\<exists>c \<in> set cs. P c v)"
    by blast
  have len: "length acc' \<le> length acc + 1"
    by (simp add: acc'_def split: option.splits)
  have mem: "v \<in> set acc \<or> P c v" if "v \<in> set acc'" for v
    using that one [of c h _ ev1] o r1 by (auto simp: acc'_def split: option.splits)
  have "\<forall>v \<in> set vs. v \<in> set acc \<or> (\<exists>c' \<in> set (c # cs). P c' v)"
    using vs(3) mem by auto
  moreover have "length vs \<le> length acc + length (c # cs)"
    using vs(2) len by simp
  ultimately show ?case using r vs(1) by blast
qed

lemma verify_loop_kept:
  assumes "verify_loop cfg env cs [] h = (r, ev)"
  shows "\<exists>vs. r = Inr vs \<and> length vs \<le> length cs
     \<and> (\<forall>v \<in> set vs. \<exists>c \<in> set cs. kept_for cfg env c v)"
proof -
  have "\<exists>vs. r = Inr vs \<and> length vs \<le> length ([] :: verifiedOpportunity list) + length cs
        \<and> (\<forall>v \<in> set vs. v \<in> set [] \<or> (\<exists>c \<in> set cs. kept_for cfg env c v))"
    by (rule verify_loop_invariant [where P = "\<lambda>c v. kept_for cfg env c v", OF _ assms])
       (rule verify_one_kept)
  then show ?thesis by simp
qed

lemma verify_loop_figures:
  assumes "verify_loop cfg env cs [] h = (r, ev)"
  shows "\<exists>vs. r = Inr vs \<and> (\<forall>v \<in> set vs. figures_as_computed cfg v)"
proof -
  have "\<exists>vs. r = Inr vs \<and> length vs \<le> length ([] :: verifiedOpportunity list) + length cs
        \<and> (\<forall>v \<in> set vs. v \<in> set [] \<or> (\<exists>c \<in> set cs. figures_as_computed cfg v))"
    by (rule verify_loop_invariant [where P = "\<lambda>c v. figures_as_computed cfg v", OF _ assms])
       (rule verify_one_figures)
  then show ?thesis by auto
qed



lemma verify_edges_stateless:
  assumes Q: "\<And>h'. ex_getJupiterQuote env h' = Q"
  shows "vas \<noteq> [] \<Longrightarrow> last vas = a \<Longrightarrow>
     (case fst (verify_edges env es a ves vas h) of
        Inl e \<Rightarrow> False
      | Inr None \<Rightarrow> requote_chain Q es a = None
      | Inr (Some p) \<Rightarrow> requote_chain Q es a = Some (last (snd p)))"
proof (induction es arbitrary: a ves vas h)
  case Nil
  then show ?case by (simp add: io_defs)
next
  case (Cons e es)
  show ?case
  proof (cases "Q (mint (fromToken e)) (mint (toToken e)) a False")
    case None
    then show ?thesis by (simp add: io_defs getJupiterQuote_def Q)
  next
    case (Some q)
    define ve where "ve = \<lparr>e_from = e_from e, e_to = e_to e, fromToken = fromToken e,
                         toToken = toToken e, rate = rate e, outAmount = q_outAmount q,
                         routePlan = routePlan e, dexNames = dexNames e,
                         inAmount = a, quote = q\<rparr>"
    have ih: "case fst (verify_edges env es (q_outAmount q) (ves @ [ve]) (vas @ [q_outAmount q])
                     (h @ [JupiterQuote (mint (fromToken e)) (mint (toToken e)) a False])) of
        Inl e \<Rightarrow> False
      | Inr None \<Rightarrow> requote_chain Q es (q_outAmount q) = None
      | Inr (Some p) \<Rightarrow> requote_chain Q es (q_outAmount q) = Some (last (snd p))"
      by (rule Cons.IH) simp_all
    have eq: "fst (verify_edges env (e # es) a ves vas h)
        = fst (verify_edges env es (q_outAmount q) (ves @ [ve]) (vas @ [q_outAmount q])
                     (h @ [JupiterQuote (mint (fromToken e)) (mint (toToken e)) a False]))"
      using Some by (simp add: io_defs getJupiterQuote_def Q Let_def ve_def split: prod.splits sum.splits)
    have rc: "requote_chain Q (e # es) a = requote_chain Q es (q_outAmount q)"
      using Some by simp
    from ih show ?thesis by (simp only: eq rc)
  qed
qed

lemma verify_one_stateless:
  assumes Q: "\<And>h'. ex_getJupiterQuote env h' = Q"
  shows "\<exists>k. fst (verify_one cfg env c h) = Inr k \<and> (k \<noteq> None \<longleftrightarrow> survives cfg Q c)
           \<and> (\<forall>v. k = Some v \<longrightarrow> cycle v = cycle c \<and> edges v = edges c)"
proof (cases "cycleStartsAndEndsWithSol (cycle c)")
  case False
  then show ?thesis by (simp add: verify_one_def io_defs survives_def)
next
  case True
  let ?N = "int (KAMINO_FLASHLOAN_AMOUNT cfg)"
  obtain r1 ev1 where ve: "verify_edges env (edges c) ?N [] [?N] h = (r1, ev1)"
    by (cases "verify_edges env (edges c) ?N [] [?N] h")
  have st: "case fst (verify_edges env (edges c) ?N [] [?N] h) of
        Inl e \<Rightarrow> False
      | Inr None \<Rightarrow> requote_chain Q (edges c) ?N = None
      | Inr (Some p) \<Rightarrow> requote_chain Q (edges c) ?N = Some (last (snd p))"
    by (rule verify_edges_stateless [OF Q]) simp_all
  show ?thesis
  proof (cases r1)
    case (Inl e)
    with st ve show ?thesis by simp
  next
    case (Inr x)
    show ?thesis
    proof (cases x)
      case None
      with st ve Inr True show ?thesis
        by (simp add: verify_one_def io_defs survives_def)
    next
      case (Some p)
      obtain ves vas where p: "p = (ves, vas)" by (cases p)
      from st ve Inr Some p have ch: "requote_chain Q (edges c) ?N = Some (last vas)" by simp
      show ?thesis
        using True ve Inr Some p ch
        by (simp add: verify_one_def io_defs survives_def Let_def grossProfitPercentage_def)
    qed
  qed
qed

lemma verify_loop_stateless:
  assumes Q: "\<And>h'. ex_getJupiterQuote env h' = Q"
  shows "\<exists>us. fst (verify_loop cfg env cs acc h) = Inr us
           \<and> map (\<lambda>v. (cycle v, edges v)) us
               = map (\<lambda>v. (cycle v, edges v)) acc
                 @ map (\<lambda>c. (cycle c, edges c)) (filter (survives cfg Q) cs)"
proof (induction cs arbitrary: acc h)
  case Nil
  then show ?case by (simp add: io_defs)
next
  case (Cons c cs)
  obtain r1 ev1 where one: "verify_one cfg env c h = (r1, ev1)"
    by (cases "verify_one cfg env c h")
  from verify_one_stateless [OF Q, of cfg c h] one obtain k where k: "r1 = Inr k"
    "k \<noteq> None \<longleftrightarrow> survives cfg Q c" "\<forall>v. k = Some v \<longrightarrow> cycle v = cycle c \<and> edges v = edges c"
    by auto
  define acc' where "acc' = (case k of None \<Rightarrow> acc | Some v \<Rightarrow> acc @ [v])"
  from Cons.IH [of acc' "h @ ev1"] obtain us where us:
    "fst (verify_loop cfg env cs acc' (h @ ev1)) = Inr us"
    "map (\<lambda>v. (cycle v, edges v)) us
       = map (\<lambda>v. (cycle v, edges v)) acc' @ map (\<lambda>c. (cycle c, edges c)) (filter (survives cfg Q) cs)"
    by blast
  have "fst (verify_loop cfg env (c # cs) acc h) = fst (verify_loop cfg env cs acc' (h @ ev1))"
    using one k(1) by (simp add: io_defs acc'_def split: prod.splits)
  moreover have "map (\<lambda>v. (cycle v, edges v)) acc'
      = map (\<lambda>v. (cycle v, edges v)) acc @ map (\<lambda>c. (cycle c, edges c)) (filter (survives cfg Q) [c])"
    using k(2,3) by (cases k) (auto simp: acc'_def)
  ultimately show ?case using us by simp
qed



lemma sort_by_profit_props:
  "length (sort_by_profit us) = length us" "set (sort_by_profit us) = set us"
  by (simp_all add: sort_by_profit_def)

lemma sort_by_profit_Nil: "sort_by_profit us = [] \<longleftrightarrow> us = []"
  using sort_by_profit_props(1) [of us] by (metis length_0_conv)

lemma verifyOpportunities_unfold:
  "\<exists>b ev0 us ev1. ensureSystemIntegrity env payer h = (Inr b, ev0)
      \<and> verify_loop cfg env (take 3 opps) [] (h @ ev0) = (Inr us, ev1)
      \<and> verifyOpportunities cfg env payer opps h = (Inr (sort_by_profit us), ev0 @ ev1)"
proof -
  obtain r0 ev0 where i: "ensureSystemIntegrity env payer h = (r0, ev0)"
    by (cases "ensureSystemIntegrity env payer h")
  from ensureSystemIntegrity_never_throws [of env payer h] i obtain b where b: "r0 = Inr b"
    by auto
  obtain r1 ev1 where l: "verify_loop cfg env (take 3 opps) [] (h @ ev0) = (r1, ev1)"
    by (cases "verify_loop cfg env (take 3 opps) [] (h @ ev0)")
  from verify_loop_kept [OF l] obtain us where us: "r1 = Inr us" by blast
  have "verifyOpportunities cfg env payer opps h = (Inr (sort_by_profit us), ev0 @ ev1)"
    using i b l us by (simp add: verifyOpportunities_def io_defs)
  with i b l us show ?thesis by blast
qed


lemma verifyOpportunities_exact_map:
  assumes Q: "\<forall>h'. ex_getJupiterQuote env h' = Q"
    and l: "verify_loop cfg env (take 3 opps) [] h0 = (Inr us, ev1)"
  shows "map (\<lambda>v. (cycle v, edges v)) us
           = map (\<lambda>c. (cycle c, edges c)) (filter (survives cfg Q) (take 3 opps))"
  using verify_loop_stateless [of env Q cfg "take 3 opps" "[]" h0] Q l by simp

lemma verifyOpportunities_exact_Nil:
  assumes Q: "\<forall>h'. ex_getJupiterQuote env h' = Q"
    and l: "verify_loop cfg env (take 3 opps) [] h0 = (Inr us, ev1)"
  shows "(sort_by_profit us = []) = (\<not> (\<exists>c \<in> set (take 3 opps). survives cfg Q c))"
proof -
  have "length (map (\<lambda>v. (cycle v, edges v)) us)
          = length (map (\<lambda>c. (cycle c, edges c)) (filter (survives cfg Q) (take 3 opps)))"
    by (simp only: verifyOpportunities_exact_map [OF Q l])
  then have len: "length us = length (filter (survives cfg Q) (take 3 opps))"
    by (simp only: length_map)
  have 1: "(us = []) = (filter (survives cfg Q) (take 3 opps) = [])"
    using len by (simp only: length_0_conv [symmetric])
  have 2: "(sort_by_profit us = []) = (us = [])"
    by (rule sort_by_profit_Nil)
  show ?thesis
    unfolding 2 1 by (simp add: filter_empty_conv)
qed


lemma costly_config_fields:
  "KAMINO_FLASHLOAN_AMOUNT costly_config = 1000000000"
  "KAMINO_FLASH_LOAN_FEE_PERCENTAGE costly_config = 5 / 1000"
  "JITO_MODE costly_config = False"
  by (simp_all add: costly_config_def default_config_def)

lemma jito_config_fields:
  "KAMINO_FLASHLOAN_AMOUNT jito_config = 1000000000"
  "KAMINO_FLASH_LOAN_FEE_PERCENTAGE jito_config = 5 / 10000"
  "JITO_MODE jito_config = True"
  "JITO_MIN_TIP jito_config = 5000"
  "JITO_TIP_PERCENTAGE jito_config = 7 / 100"
  by (simp_all add: jito_config_def default_config_def)

lemma sample_integrity_idle:
  "ensureSystemIntegrity (sample_env 0 t l1 l2) sample_payer h = (Inr False, [GetBalance ''payer''])"
  by (simp add: ensureSystemIntegrity_def getBalance_def io_defs sample_env_fields sample_payer_def)

lemma sample_edge_fields:
  "mint (fromToken (sample_edge 0 1 r)) = ''So11111111111111111111111111111111111111112''"
  "mint (toToken (sample_edge 0 1 r)) = ''EPjFWdd5AufqSSqeM2qN1xzybapC8G4wEGGkZwyTDt1v''"
  "mint (fromToken (sample_edge 1 0 r)) = ''EPjFWdd5AufqSSqeM2qN1xzybapC8G4wEGGkZwyTDt1v''"
  "mint (toToken (sample_edge 1 0 r)) = ''So11111111111111111111111111111111111111112''"
  "mint (fromToken (sample_edge 0 (Suc 0) r)) = ''So11111111111111111111111111111111111111112''"
  "mint (toToken (sample_edge 0 (Suc 0) r)) = ''EPjFWdd5AufqSSqeM2qN1xzybapC8G4wEGGkZwyTDt1v''"
  "mint (fromToken (sample_edge (Suc 0) 0 r)) = ''EPjFWdd5AufqSSqeM2qN1xzybapC8G4wEGGkZwyTDt1v''"
  "mint (toToken (sample_edge (Suc 0) 0 r)) = ''So11111111111111111111111111111111111111112''"
  by (simp_all add: sample_edge_def default_config_def)

lemma sample_survives:
  "survives costly_config sample_quote sample_opportunity"
  by (simp add: survives_def cycleStartsAndEndsWithSol_def solTokenIndex_def sample_opportunity_def
      sample_edge_fields costly_config_fields sample_quote_def grossProfitPercentage_def)

lemma sample_verify_costly:
  "\<exists>v ev. verify_one costly_config (sample_env 0 t l1 l2) sample_opportunity h = (Inr (Some v), ev)
      \<and> verifiedAmounts v = [1000000000, 1000000000, 1002000000]
      \<and> profitPercentage v = 2 / 10 \<and> verifiedProfit v = 2000000
      \<and> flashLoanFee v = 5000000 \<and> estimatedTip v = 0 \<and> netProfit v = - 3000000"
  by (simp add: verify_one_def cycleStartsAndEndsWithSol_def solTokenIndex_def sample_opportunity_def
      sample_edge_fields costly_config_fields getJupiterQuote_def io_defs
      sample_env_fields sample_quote_def Let_def)

lemma sample_verify_jito:
  "\<exists>v ev. verify_one jito_config (sample_env 0 t l1 l2) sample_opportunity h = (Inr (Some v), ev)
      \<and> verifiedAmounts v = [1000000000, 1000000000, 1002000000]
      \<and> profitPercentage v = 2 / 10 \<and> verifiedProfit v = 2000000
      \<and> flashLoanFee v = 500000 \<and> estimatedTip v = 140000 \<and> netProfit v = 1360000"
  by (simp add: verify_one_def cycleStartsAndEndsWithSol_def solTokenIndex_def sample_opportunity_def
      sample_edge_fields jito_config_fields getJupiterQuote_def io_defs
      sample_env_fields sample_quote_def Let_def)

lemma verifyOpportunities_single:
  assumes "ensureSystemIntegrity env payer h = (Inr b, ev0)"
    and "verify_one cfg env c (h @ ev0) = (Inr (Some v), ev1)"
  shows "verifyOpportunities cfg env payer [c] h = (Inr [v], ev0 @ ev1)"
  using assms by (simp add: verifyOpportunities_def io_defs sort_by_profit_def)



text \<open>
  C2. For a positive loan notional, \<open>verifyOpportunities\<close> does the same on a list as on
  its first three candidates, never throws, and returns at most three verified
  opportunities, sorted descending by profit percentage. Each one was kept for one of the
  first three candidates: its amounts start at the loan notional, each hop is quoted for
  the output of the hop before, and its profit percentage, the gross one at the notional,
  is at least 0.1; its net profit plays no part. When the quoting service answers a request
  the same way whenever asked, the result is exactly the sorted list of the candidates
  among the first three that survive (cycle from and to the base token, every quote
  answered, gross percentage at least 0.1): a candidate with an unanswered quote is left
  out and the others are still verified, and the result is empty exactly when none
  survives.
\<close>

theorem verifyOpportunities_spec:
  "0 < KAMINO_FLASHLOAN_AMOUNT cfg \<longrightarrow>
     verifyOpportunities cfg env payer opps h = verifyOpportunities cfg env payer (take 3 opps) h
     \<and> (\<exists>vs. fst (verifyOpportunities cfg env payer opps h) = Inr vs
          \<and> length vs \<le> 3
          \<and> sorted_wrt (\<lambda>a b. profitPercentage a \<ge> profitPercentage b) vs
          \<and> (\<forall>v \<in> set vs. \<exists>c \<in> set (take 3 opps). kept_for cfg env c v)
          \<and> ((\<forall>h'. ex_getJupiterQuote env h' = Q) \<longrightarrow>
               (vs = [] \<longleftrightarrow> \<not> (\<exists>c \<in> set (take 3 opps). survives cfg Q c))
               \<and> (\<exists>us. vs = sort_by_profit us
                     \<and> map (\<lambda>v. (cycle v, edges v)) us
                         = map (\<lambda>c. (cycle c, edges c)) (filter (survives cfg Q) (take 3 opps)))))"
proof (intro impI conjI)
  show "verifyOpportunities cfg env payer opps h = verifyOpportunities cfg env payer (take 3 opps) h"
    by (simp add: verifyOpportunities_def)
next
  from verifyOpportunities_unfold [of env payer h cfg opps] obtain b ev0 us ev1 where
    l: "verify_loop cfg env (take 3 opps) [] (h @ ev0) = (Inr us, ev1)"
    and v: "verifyOpportunities cfg env payer opps h = (Inr (sort_by_profit us), ev0 @ ev1)"
    by blast
  from verify_loop_kept [OF l] have len: "length us \<le> 3"
    and mem: "\<forall>v \<in> set us. \<exists>c \<in> set (take 3 opps). kept_for cfg env c v"
    by simp_all
  have exact: "(sort_by_profit us = [] \<longleftrightarrow> \<not> (\<exists>c \<in> set (take 3 opps). survives cfg Q c))
               \<and> (\<exists>us'. sort_by_profit us = sort_by_profit us'
                     \<and> map (\<lambda>v. (cycle v, edges v)) us'
                         = map (\<lambda>c. (cycle c, edges c)) (filter (survives cfg Q) (take 3 opps)))"
    if Q: "\<forall>h'. ex_getJupiterQuote env h' = Q"
  proof (intro conjI exI [of _ us])
    show "sort_by_profit us = [] \<longleftrightarrow> \<not> (\<exists>c \<in> set (take 3 opps). survives cfg Q c)"
      by (rule verifyOpportunities_exact_Nil [OF Q l])
    show "sort_by_profit us = sort_by_profit us" by (rule refl)
    show "map (\<lambda>v. (cycle v, edges v)) us
            = map (\<lambda>c. (cycle c, edges c)) (filter (survives cfg Q) (take 3 opps))"
      by (rule verifyOpportunities_exact_map [OF Q l])
  qed
  show "\<exists>vs. fst (verifyOpportunities cfg env payer opps h) = Inr vs
          \<and> length vs \<le> 3
          \<and> sorted_wrt (\<lambda>a b. profitPercentage a \<ge> profitPercentage b) vs
          \<and> (\<forall>v \<in> set vs. \<exists>c \<in> set (take 3 opps). kept_for cfg env c v)
          \<and> ((\<forall>h'. ex_getJupiterQuote env h' = Q) \<longrightarrow>
               (vs = [] \<longleftrightarrow> \<not> (\<exists>c \<in> set (take 3 opps). survives cfg Q c))
               \<and> (\<exists>us. vs = sort_by_profit us
                     \<and> map (\<lambda>v. (cycle v, edges v)) us
                         = map (\<lambda>c. (cycle c, edges c)) (filter (survives cfg Q) (take 3 opps))))"
  proof (rule exI [of _ "sort_by_profit us"], intro conjI)
    show "fst (verifyOpportunities cfg env payer opps h) = Inr (sort_by_profit us)"
      using v by simp
    show "length (sort_by_profit us) \<le> 3"
      using len by (simp add: sort_by_profit_props)
    show "sorted_wrt (\<lambda>a b. profitPercentage a \<ge> profitPercentage b) (sort_by_profit us)"
      by (rule sorted_sort_by_profit)
    show "\<forall>v \<in> set (sort_by_profit us). \<exists>c \<in> set (take 3 opps). kept_for cfg env c v"
      unfolding sort_by_profit_props by (rule mem)
    show "(\<forall>h'. ex_getJupiterQuote env h' = Q) \<longrightarrow>
               (sort_by_profit us = [] \<longleftrightarrow> \<not> (\<exists>c \<in> set (take 3 opps). survives cfg Q c))
               \<and> (\<exists>us'. sort_by_profit us = sort_by_profit us'
                     \<and> map (\<lambda>v. (cycle v, edges v)) us'
                         = map (\<lambda>c. (cycle c, edges c)) (filter (survives cfg Q) (take 3 opps)))"
      using exact by (rule impI)
  qed
qed


theorem verifyOpportunities_spec_witness:
  "0 < KAMINO_FLASHLOAN_AMOUNT costly_config
   \<and> (\<forall>h'. ex_getJupiterQuote (sample_env 0 [] 300 300) h' = sample_quote)
   \<and> survives costly_config sample_quote sample_opportunity
   \<and> (\<exists>v. fst (verifyOpportunities costly_config (sample_env 0 [] 300 300) sample_payer
                [sample_opportunity] []) = Inr [v]
          \<and> verifiedAmounts v = [1000000000, 1000000000, 1002000000]
          \<and> profitPercentage v = 2 / 10 \<and> netProfit v = - 3000000)"
proof -
  from sample_verify_costly [of "[]" 300 300 "[] @ [GetBalance ''payer'']"]
  obtain v ev where v: "verify_one costly_config (sample_env 0 [] 300 300) sample_opportunity
        ([] @ [GetBalance ''payer'']) = (Inr (Some v), ev)"
    "verifiedAmounts v = [1000000000, 1000000000, 1002000000]"
    "profitPercentage v = 2 / 10" "netProfit v = - 3000000"
    by blast
  have run: "verifyOpportunities costly_config (sample_env 0 [] 300 300) sample_payer
                [sample_opportunity] [] = (Inr [v], [GetBalance ''payer''] @ ev)"
    by (rule verifyOpportunities_single [OF sample_integrity_idle v(1)])
  from verifyOpportunities_spec [of costly_config "sample_env 0 [] 300 300" sample_payer
         "[sample_opportunity]" "[]" sample_quote] run v(2-4) sample_survives
  show ?thesis
    by (simp add: costly_config_fields sample_env_fields)
qed


text \<open>
  C6. For a positive loan notional \<open>N\<close>, every verified opportunity that
  \<open>verifyOpportunities\<close> returns, with \<open>F\<close> the last of its chained amounts, has gross
  profit \<open>F - N\<close>, fee \<open>ceil (N * KAMINO_FLASH_LOAN_FEE_PERCENTAGE)\<close>, tip
  \<open>max JITO_MIN_TIP (floor (profit * JITO_TIP_PERCENTAGE))\<close> in bundle mode and 0 otherwise,
  and net profit \<open>profit - fee - tip\<close>; the figures of
  \<open>executeFlashLoanJupiterArbitrage\<close> are the same expressions of the quoted return.
\<close>

theorem verified_figures:
  "0 < KAMINO_FLASHLOAN_AMOUNT cfg \<longrightarrow>
     (\<forall>vs. fst (verifyOpportunities cfg env payer opps h) = Inr vs \<longrightarrow> (\<forall>v \<in> set vs. figures_as_computed cfg v))
     \<and> jupiterArbitrageFigures cfg F =
         (F - int (KAMINO_FLASHLOAN_AMOUNT cfg),
          of_int (F - int (KAMINO_FLASHLOAN_AMOUNT cfg)) / of_int (int (KAMINO_FLASHLOAN_AMOUNT cfg)) * 100,
          \<lceil>of_int (int (KAMINO_FLASHLOAN_AMOUNT cfg)) * KAMINO_FLASH_LOAN_FEE_PERCENTAGE cfg\<rceil>,
          (if JITO_MODE cfg
           then max (JITO_MIN_TIP cfg)
                  \<lfloor>of_int (F - int (KAMINO_FLASHLOAN_AMOUNT cfg)) * JITO_TIP_PERCENTAGE cfg\<rfloor>
           else 0),
          F - int (KAMINO_FLASHLOAN_AMOUNT cfg)
            - \<lceil>of_int (int (KAMINO_FLASHLOAN_AMOUNT cfg)) * KAMINO_FLASH_LOAN_FEE_PERCENTAGE cfg\<rceil>
            - (if JITO_MODE cfg
               then max (JITO_MIN_TIP cfg)
                      \<lfloor>of_int (F - int (KAMINO_FLASHLOAN_AMOUNT cfg)) * JITO_TIP_PERCENTAGE cfg\<rfloor>
               else 0))"
proof (intro impI conjI allI)
  fix vs
  assume r: "fst (verifyOpportunities cfg env payer opps h) = Inr vs"
  from verifyOpportunities_unfold [of env payer h cfg opps] obtain b ev0 us ev1 where
    l: "verify_loop cfg env (take 3 opps) [] (h @ ev0) = (Inr us, ev1)"
    and v: "verifyOpportunities cfg env payer opps h = (Inr (sort_by_profit us), ev0 @ ev1)"
    by blast
  from verify_loop_figures [OF l]
  have mem: "\<forall>v \<in> set us. figures_as_computed cfg v"
    by simp
  from r v have "vs = sort_by_profit us" by simp
  then have "set vs = set us" by (simp add: sort_by_profit_props)
  then show "\<forall>v \<in> set vs. figures_as_computed cfg v"
    using mem by (simp only:)
next
  show "jupiterArbitrageFigures cfg F =
         (F - int (KAMINO_FLASHLOAN_AMOUNT cfg),
          of_int (F - int (KAMINO_FLASHLOAN_AMOUNT cfg)) / of_int (int (KAMINO_FLASHLOAN_AMOUNT cfg)) * 100,
          \<lceil>of_int (int (KAMINO_FLASHLOAN_AMOUNT cfg)) * KAMINO_FLASH_LOAN_FEE_PERCENTAGE cfg\<rceil>,
          (if JITO_MODE cfg
           then max (JITO_MIN_TIP cfg)
                  \<lfloor>of_int (F - int (KAMINO_FLASHLOAN_AMOUNT cfg)) * JITO_TIP_PERCENTAGE cfg\<rfloor>
           else 0),
          F - int (KAMINO_FLASHLOAN_AMOUNT cfg)
            - \<lceil>of_int (int (KAMINO_FLASHLOAN_AMOUNT cfg)) * KAMINO_FLASH_LOAN_FEE_PERCENTAGE cfg\<rceil>
            - (if JITO_MODE cfg
               then max (JITO_MIN_TIP cfg)
                      \<lfloor>of_int (F - int (KAMINO_FLASHLOAN_AMOUNT cfg)) * JITO_TIP_PERCENTAGE cfg\<rfloor>
               else 0))"
    by (simp add: jupiterArbitrageFigures_def Let_def)
qed

theorem verified_figures_witness:
  "0 < KAMINO_FLASHLOAN_AMOUNT jito_config
   \<and> (\<exists>v. fst (verifyOpportunities jito_config (sample_env 0 [] 300 300) sample_payer
                [sample_opportunity] []) = Inr [v]
          \<and> verifiedAmounts v = [1000000000, 1000000000, 1002000000]
          \<and> verifiedProfit v = 2000000 \<and> flashLoanFee v = 500000
          \<and> estimatedTip v = 140000 \<and> netProfit v = 1360000)
   \<and> jupiterArbitrageFigures jito_config 1002000000 = (2000000, 2 / 10, 500000, 140000, 1360000)"
proof -
  from sample_verify_jito [of "[]" 300 300 "[] @ [GetBalance ''payer'']"]
  obtain v ev where v: "verify_one jito_config (sample_env 0 [] 300 300) sample_opportunity
        ([] @ [GetBalance ''payer'']) = (Inr (Some v), ev)"
    "verifiedAmounts v = [1000000000, 1000000000, 1002000000]"
    "verifiedProfit v = 2000000" "flashLoanFee v = 500000"
    "estimatedTip v = 140000" "netProfit v = 1360000"
    by blast
  have run: "verifyOpportunities jito_config (sample_env 0 [] 300 300) sample_payer
                [sample_opportunity] [] = (Inr [v], [GetBalance ''payer''] @ ev)"
    by (rule verifyOpportunities_single [OF sample_integrity_idle v(1)])
  from verified_figures [of jito_config "sample_env 0 [] 300 300" sample_payer
         "[sample_opportunity]" "[]" 1002000000] run v(2-6)
  show ?thesis
    by (simp add: jito_config_fields)
qed

end
